theory Spec2Isabelle
  imports Main "HOL-Library.Sublist" "HOL-Library.AList" "HOL-Library.Word"
begin

section \<open>JavaScript values\<close>

text \<open>
  A JavaScript string is a sequence of 16-bit code units. Where the code only joins,
  compares and prints strings, a \<^typ>\<open>char\<close> stands for one code unit, so the strings
  covered there are those whose code units are below 256. The strings that the code
  hands to \<^verbatim>\<open>encodeURIComponent\<close>, which throws on some strings of wider code
  units, are lists of 16-bit code units (see below).

  A number is carried as the text that \<^verbatim>\<open>String(n)\<close> gives for it, which is all
  the code below ever does with a number (it prints it, or tests it for truthiness).

  An object is the list of its own enumerable properties. A later entry for a key
  overwrites an earlier one, as in an object literal.
\<close>

datatype jsval =
    JUndefined
  | JNull
  | JBool bool
  | JNum string
  | JStr string
  | JArr "jsval list"
  | JObj "(string \<times> jsval) list"

type_synonym obj = "(string \<times> jsval) list"

fun truthy :: "jsval \<Rightarrow> bool" where
  "truthy JUndefined = False"
| "truthy JNull = False"
| "truthy (JBool b) = b"
| "truthy (JNum s) = (s \<noteq> ''0'' \<and> s \<noteq> ''NaN'')"
| "truthy (JStr s) = (s \<noteq> [])"
| "truthy (JArr xs) = True"
| "truthy (JObj kvs) = True"

text \<open>\<^verbatim>\<open>a || b\<close>\<close>

definition js_or :: "jsval \<Rightarrow> jsval \<Rightarrow> jsval" where
  "js_or a b = (if truthy a then a else b)"

text \<open>The own properties of an object, as a map.\<close>

definition own_props :: "obj \<Rightarrow> string \<rightharpoonup> jsval" where
  "own_props kvs = map_of (rev kvs)"

text \<open>
  \<^verbatim>\<open>o.k\<close> for an object \<open>o\<close> of own properties only and a key that
  \<^verbatim>\<open>Object.prototype\<close> does not define (every key read below is such a key).
\<close>

definition get_prop :: "obj \<Rightarrow> string \<Rightarrow> jsval" where
  "get_prop kvs k = (case own_props kvs k of None \<Rightarrow> JUndefined | Some v \<Rightarrow> v)"

text \<open>\<^verbatim>\<open>o[k] = v\<close>: an existing key keeps its place, a new key goes last.\<close>

definition set_prop :: "string \<Rightarrow> jsval \<Rightarrow> obj \<Rightarrow> obj" where
  "set_prop k v kvs = AList.update k v kvs"

subsection \<open>Numbers as text\<close>

definition digit_char :: "nat \<Rightarrow> char" where
  "digit_char d = ''0123456789ABCDEF'' ! d"

function show_nat :: "nat \<Rightarrow> string" where
  "show_nat n = (if n < 10 then [digit_char n] else show_nat (n div 10) @ [digit_char (n mod 10)])"
  by pat_completeness auto
termination
  by (relation "measure (\<lambda>n. n)") auto

declare show_nat.simps [simp del]

subsection \<open>Conversion to a string, as in a template literal\<close>

fun intercalate :: "string \<Rightarrow> string list \<Rightarrow> string" where
  "intercalate sep [] = []"
| "intercalate sep [x] = x"
| "intercalate sep (x # y # ys) = x @ sep @ intercalate sep (y # ys)"

fun js_toString :: "jsval \<Rightarrow> string" where
  "js_toString JUndefined = ''undefined''"
| "js_toString JNull = ''null''"
| "js_toString (JBool b) = (if b then ''true'' else ''false'')"
| "js_toString (JNum s) = s"
| "js_toString (JStr s) = s"
| "js_toString (JArr xs) =
     intercalate '','' (map (\<lambda>x. if x = JNull \<or> x = JUndefined then [] else js_toString x) xs)"
| "js_toString (JObj kvs) = ''[object Object]''"

subsection \<open>Object spread\<close>

text \<open>
  The own enumerable properties that \<^verbatim>\<open>{...v}\<close> copies: the entries of an object,
  the elements of an array under their indices, the code units of a string under their
  indices, and nothing for \<^verbatim>\<open>undefined\<close>, \<^verbatim>\<open>null\<close>, a boolean or a number.
\<close>

definition indexed :: "jsval list \<Rightarrow> obj" where
  "indexed xs = map (\<lambda>i. (show_nat i, xs ! i)) [0 ..< length xs]"

fun own_entries :: "jsval \<Rightarrow> obj" where
  "own_entries (JObj kvs) = kvs"
| "own_entries (JArr xs) = indexed xs"
| "own_entries (JStr s) = indexed (map (\<lambda>c. JStr [c]) s)"
| "own_entries v = []"

text \<open>Copies the entries into the target in order, as the spread of an object literal does.\<close>

definition assign_entries :: "obj \<Rightarrow> obj \<Rightarrow> obj" where
  "assign_entries target es = fold (\<lambda>kv acc. set_prop (fst kv) (snd kv) acc) es target"

text \<open>\<^verbatim>\<open>{ ...a, ...b }\<close>\<close>

definition spread2 :: "jsval \<Rightarrow> jsval \<Rightarrow> obj" where
  "spread2 a b = assign_entries (assign_entries [] (own_entries a)) (own_entries b)"

section \<open>Collaborators\<close>

text \<open>An \<^verbatim>\<open>Error\<close>: its message, and the \<^verbatim>\<open>isRedirecting\<close> flag (unset on a new error).\<close>

record js_error =
  message :: string
  isRedirecting :: bool

definition new_Error :: "string \<Rightarrow> js_error" where
  "new_Error msg = \<lparr>message = msg, isRedirecting = False\<rparr>"

subsection \<open>\<^verbatim>\<open>encodeURIComponent\<close>\<close>

text \<open>
  The argument is a string of 16-bit code units. \<open>utf16_of\<close> gives the code units of a
  string of the other kind.
\<close>

type_synonym utf16 = "16 word list"

definition utf16_of :: "string \<Rightarrow> utf16" where
  "utf16_of s = map of_char s"

text \<open>
  The \<^verbatim>\<open>URIError\<close> that \<^verbatim>\<open>encodeURIComponent\<close> throws. Its message is the
  engine's own; this is the one of V8.
\<close>

definition URIError :: js_error where
  "URIError = new_Error ''URI malformed''"

text \<open>
  Letters, digits and \<^verbatim>\<open>- _ . ! ~ * ' ( )\<close> stay. Every other code point is written
  as the bytes of its UTF-8 encoding, each as \<^verbatim>\<open>%XX\<close> in upper-case hexadecimal.
\<close>

definition uri_unreserved :: string where
  "uri_unreserved =
     ''ABCDEFGHIJKLMNOPQRSTUVWXYZabcdefghijklmnopqrstuvwxyz0123456789-_.!~*'()''"

definition unreserved_char :: "nat \<Rightarrow> char option" where
  "unreserved_char n = map_of (map (\<lambda>c. (of_char c, c)) uri_unreserved) n"

definition percent_byte :: "nat \<Rightarrow> string" where
  "percent_byte b = [CHR ''%'', digit_char (b div 16), digit_char (b mod 16)]"

definition utf8_bytes :: "nat \<Rightarrow> nat list" where
  "utf8_bytes cp =
     (if cp < 128 then [cp]
      else if cp < 2048 then [192 + cp div 64, 128 + cp mod 64]
      else if cp < 65536 then
        [224 + cp div 4096, 128 + cp div 64 mod 64, 128 + cp mod 64]
      else
        [240 + cp div 262144, 128 + cp div 4096 mod 64, 128 + cp div 64 mod 64,
         128 + cp mod 64])"

definition encode_code_point :: "nat \<Rightarrow> string" where
  "encode_code_point cp =
     (case unreserved_char cp of
        Some c \<Rightarrow> [c]
      | None \<Rightarrow> concat (map percent_byte (utf8_bytes cp)))"

text \<open>
  The code units from D800 to DBFF are leading surrogates, those from DC00 to DFFF
  trailing ones. A leading surrogate and the trailing one that follows it stand for one
  code point from 10000 on. A surrogate without its partner is a lone surrogate, and the
  function throws on a string that has one.
\<close>

definition is_lead :: "nat \<Rightarrow> bool" where
  "is_lead c \<longleftrightarrow> 55296 \<le> c \<and> c \<le> 56319"

definition is_trail :: "nat \<Rightarrow> bool" where
  "is_trail c \<longleftrightarrow> 56320 \<le> c \<and> c \<le> 57343"

definition prepend :: "string \<Rightarrow> js_error + string \<Rightarrow> js_error + string" where
  "prepend xs r = (case r of Inl e \<Rightarrow> Inl e | Inr ys \<Rightarrow> Inr (xs @ ys))"

fun encode_units :: "nat list \<Rightarrow> js_error + string" where
  "encode_units [] = Inr []"
| "encode_units [c] =
     (if is_lead c \<or> is_trail c then Inl URIError else Inr (encode_code_point c))"
| "encode_units (c # d # rest) =
     (if is_lead c then
        (if is_trail d then
           prepend (encode_code_point (65536 + (c - 55296) * 1024 + (d - 56320)))
             (encode_units rest)
         else Inl URIError)
      else if is_trail c then Inl URIError
      else prepend (encode_code_point c) (encode_units (d # rest)))"

definition encodeURIComponent :: "utf16 \<Rightarrow> js_error + string" where
  "encodeURIComponent s = encode_units (map unat s)"

text \<open>A string without a lone surrogate.\<close>

fun well_formed_units :: "nat list \<Rightarrow> bool" where
  "well_formed_units [] = True"
| "well_formed_units [c] = (\<not> is_lead c \<and> \<not> is_trail c)"
| "well_formed_units (c # d # rest) =
     (if is_lead c then is_trail d \<and> well_formed_units rest
      else \<not> is_trail c \<and> well_formed_units (d # rest))"

definition well_formed :: "utf16 \<Rightarrow> bool" where
  "well_formed s = well_formed_units (map unat s)"

text \<open>What \<^verbatim>\<open>logFrontendAuthError\<close> was handed: an error, or a message.\<close>

datatype log_entry = LogError js_error | LogMessage string

text \<open>
  An axios instance: \<^verbatim>\<open>defaults.withCredentials\<close> and the interceptors registered
  on it, in registration order. The interceptors are named by the factory that made
  them; one that a middleware function registers goes by a name of its own.
\<close>

datatype interceptor =
    CsrfTokenProviderInterceptor
  | JwtTokenProviderInterceptor
  | ProcessAxiosRequestErrorInterceptor
  | ApiInterceptor obj
  | OtherInterceptor string

record axios_instance =
  withCredentials :: bool
  request_interceptors :: "interceptor list"
  response_interceptors :: "interceptor list"

text \<open>
  A client handle. \<open>Axios i\<close> is the axios instance at address \<open>i\<close> of the store.
  \<open>Derived n c\<close> is the object that \<^verbatim>\<open>Object.create(c)\<close> made, \<open>n\<close> being its
  identity: it has no property of its own and reads \<^verbatim>\<open>defaults\<close> and
  \<^verbatim>\<open>interceptors\<close> through its prototype \<open>c\<close>. Two handles are the same object
  exactly when they are equal.
\<close>

datatype http_client = Axios nat | Derived nat http_client

fun instance_of :: "http_client \<Rightarrow> nat" where
  "instance_of (Axios i) = i"
| "instance_of (Derived n c) = instance_of c"

text \<open>
  The browser and the collaborators, as far as the services touch them:
  \<^verbatim>\<open>document.referrer\<close>, the calls of \<^verbatim>\<open>location.assign\<close>, of
  \<^verbatim>\<open>logFrontendAuthError\<close>, of \<^verbatim>\<open>get\<close> on a client and of
  \<^verbatim>\<open>console.log\<close>, the store of axios instances, the number of objects made by
  \<^verbatim>\<open>Object.create\<close>, the calls of middleware functions (the position of the
  function in the configured list, and the client it was handed), and the calls of
  \<^verbatim>\<open>csrfTokenService.getCsrfToken\<close> (the URL of the request, and the path of the
  token API).
\<close>

record world =
  referrer :: string
  navigations :: "string list"
  logged :: "log_entry list"
  requests :: "(http_client \<times> string) list"
  console :: "string list"
  instances :: "axios_instance list"
  created :: nat
  applied :: "(nat \<times> http_client) list"
  csrf_token_calls :: "(string \<times> string) list"

text \<open>
  A middleware function is handed a client and changes it, or throws. What it changes
  lives in the store of instances.
\<close>

type_synonym middlewareFn =
  "http_client \<Rightarrow> axios_instance list \<Rightarrow> js_error option \<times> axios_instance list"

text \<open>
  Modelled from the spec: \<^verbatim>\<open>logFrontendAuthError\<close> of \<^verbatim>\<open>./utils\<close> is not among
  the sources. It reports its argument to the logging collaborator; the report is one
  entry of the log.
\<close>

definition logFrontendAuthError :: "log_entry \<Rightarrow> world \<Rightarrow> world" where
  "logFrontendAuthError e w = w\<lparr>logged := logged w @ [e]\<rparr>"

text \<open>
  \<^verbatim>\<open>global.location.assign(url)\<close>: the call is recorded with the URL it was handed.
  What the browser then does with the URL is outside the services.
\<close>

definition location_assign :: "string \<Rightarrow> world \<Rightarrow> world" where
  "location_assign u w = w\<lparr>navigations := navigations w @ [u]\<rparr>"

section \<open>AbstractAuthService\<close>

text \<open>
  The development configuration \<^verbatim>\<open>config.dev\<close>, with the types that the
  service declares for its mock users: an object, or absent.
\<close>

record dev_config =
  dev_authenticatedUser :: "obj option"
  dev_hydratedAuthenticatedUser :: "obj option"
  dev_apiConfig :: "obj option"

record config =
  BASE_URL :: utf16
  LMS_BASE_URL :: string
  LOGIN_URL :: string
  LOGOUT_URL :: string
  REFRESH_ACCESS_TOKEN_ENDPOINT :: string
  ACCESS_TOKEN_COOKIE_NAME :: string
  CSRF_TOKEN_API_PATH :: string
  dev :: "dev_config option"

text \<open>
  The configuration is a record of strings, so \<^verbatim>\<open>ensureDefinedConfig\<close>, which
  throws on a key that is \<^verbatim>\<open>undefined\<close>, and \<^verbatim>\<open>PropTypes.checkPropTypes\<close>, which
  only warns, have nothing to report in a constructor.

  The fields of the base class. The user is \<^verbatim>\<open>UserData|null\<close>. Both subclasses
  assign the two clients in their constructor, and nothing assigns them afterwards, so
  the \<^verbatim>\<open>null\<close> that the base constructor puts there is never read.
\<close>

record auth_service =
  config :: config
  authenticatedHttpClient :: http_client
  httpClient :: http_client
  authenticatedUser :: "obj option"

definition getMiddlewareClients :: "'a auth_service_scheme \<Rightarrow> http_client option list" where
  "getMiddlewareClients s = [Some (authenticatedHttpClient s), Some (httpClient s)]"

text \<open>
  \<^verbatim>\<open>clients.forEach((client) => client && middlewareFn(client))\<close> for the function at
  position \<open>i\<close> of the list: a \<^verbatim>\<open>null\<close> client is passed over, a call is recorded
  and changes the store, and a call that throws ends the loop.
\<close>

fun apply_to_clients ::
  "nat \<Rightarrow> middlewareFn \<Rightarrow> http_client option list \<Rightarrow> world \<Rightarrow> js_error option \<times> world" where
  "apply_to_clients i middlewareFn [] w = (None, w)"
| "apply_to_clients i middlewareFn (None # clients) w =
     apply_to_clients i middlewareFn clients w"
| "apply_to_clients i middlewareFn (Some client # clients) w =
     (let w = w\<lparr>applied := applied w @ [(i, client)]\<rparr> in
      case middlewareFn client (instances w) of
        (Some error, store) \<Rightarrow> (Some error, w\<lparr>instances := store\<rparr>)
      | (None, store) \<Rightarrow> apply_to_clients i middlewareFn clients (w\<lparr>instances := store\<rparr>))"

text \<open>\<^verbatim>\<open>middleware.forEach((middlewareFn) => ...)\<close>, from position \<open>i\<close> on.\<close>

fun apply_each ::
  "nat \<Rightarrow> middlewareFn list \<Rightarrow> http_client option list \<Rightarrow> world \<Rightarrow> js_error option \<times> world" where
  "apply_each i [] clients w = (None, w)"
| "apply_each i (middlewareFn # rest) clients w =
     (case apply_to_clients i middlewareFn clients w of
        (Some error, w) \<Rightarrow> (Some error, w)
      | (None, w) \<Rightarrow> apply_each (Suc i) rest clients w)"

text \<open>
  \<^verbatim>\<open>applyMiddleware(middleware = [])\<close>. The clients are those that
  \<^verbatim>\<open>this.getMiddlewareClients()\<close> returns in the class of the service. An error that
  a middleware function throws is logged and thrown again.
\<close>

definition applyMiddleware ::
  "middlewareFn list option \<Rightarrow> http_client option list \<Rightarrow> world \<Rightarrow> js_error option \<times> world" where
  "applyMiddleware middleware clients w =
     (let middleware = (case middleware of None \<Rightarrow> [] | Some m \<Rightarrow> m) in
      case apply_each 0 middleware clients w of
        (Some error, w) \<Rightarrow> (Some error, logFrontendAuthError (LogError error) w)
      | (None, w) \<Rightarrow> (None, w))"

definition getAuthenticatedHttpClient :: "'a auth_service_scheme \<Rightarrow> http_client" where
  "getAuthenticatedHttpClient s = authenticatedHttpClient s"

definition getHttpClient :: "'a auth_service_scheme \<Rightarrow> http_client" where
  "getHttpClient s = httpClient s"

text \<open>
  The methods that build and follow a redirect URL. \<^verbatim>\<open>encodeURIComponent\<close> may
  throw; then the method throws, and a redirect does not reach
  \<^verbatim>\<open>location.assign\<close>, whose argument is evaluated first.
\<close>

definition getLoginRedirectUrl ::
  "utf16 option \<Rightarrow> 'a auth_service_scheme \<Rightarrow> js_error + string" where
  "getLoginRedirectUrl redirectUrl s =
     (let redirectUrl = (case redirectUrl of None \<Rightarrow> BASE_URL (config s) | Some u \<Rightarrow> u)
      in case encodeURIComponent redirectUrl of
           Inl e \<Rightarrow> Inl e
         | Inr encoded \<Rightarrow> Inr (LOGIN_URL (config s) @ ''?next='' @ encoded))"

definition redirectToLogin ::
  "utf16 option \<Rightarrow> 'a auth_service_scheme \<Rightarrow> world \<Rightarrow> js_error option \<times> world" where
  "redirectToLogin redirectUrl s w =
     (let redirectUrl = (case redirectUrl of None \<Rightarrow> BASE_URL (config s) | Some u \<Rightarrow> u)
      in case getLoginRedirectUrl (Some redirectUrl) s of
           Inl e \<Rightarrow> (Some e, w)
         | Inr target \<Rightarrow> (None, location_assign target w))"

definition getLogoutRedirectUrl ::
  "utf16 option \<Rightarrow> 'a auth_service_scheme \<Rightarrow> js_error + string" where
  "getLogoutRedirectUrl redirectUrl s =
     (let redirectUrl = (case redirectUrl of None \<Rightarrow> BASE_URL (config s) | Some u \<Rightarrow> u)
      in case encodeURIComponent redirectUrl of
           Inl e \<Rightarrow> Inl e
         | Inr encoded \<Rightarrow> Inr (LOGOUT_URL (config s) @ ''?redirect_url='' @ encoded))"

definition redirectToLogout ::
  "utf16 option \<Rightarrow> 'a auth_service_scheme \<Rightarrow> world \<Rightarrow> js_error option \<times> world" where
  "redirectToLogout redirectUrl s w =
     (let redirectUrl = (case redirectUrl of None \<Rightarrow> BASE_URL (config s) | Some u \<Rightarrow> u)
      in case getLogoutRedirectUrl (Some redirectUrl) s of
           Inl e \<Rightarrow> (Some e, w)
         | Inr target \<Rightarrow> (None, location_assign target w))"

definition getAuthenticatedUser :: "'a auth_service_scheme \<Rightarrow> obj option" where
  "getAuthenticatedUser s = authenticatedUser s"

definition setAuthenticatedUser :: "obj option \<Rightarrow> 'a auth_service_scheme \<Rightarrow> 'a auth_service_scheme" where
  "setAuthenticatedUser authUser s = s\<lparr>authenticatedUser := authUser\<rparr>"

text \<open>
  \<^verbatim>\<open>global.document.referrer && global.document.referrer.startsWith(LOGIN_URL)\<close>,
  as the condition of the \<^verbatim>\<open>if\<close> that follows it.
\<close>

definition isRedirectFromLoginPage :: "'a auth_service_scheme \<Rightarrow> world \<Rightarrow> bool" where
  "isRedirectFromLoginPage s w \<longleftrightarrow>
     referrer w \<noteq> [] \<and> prefix (LOGIN_URL (config s)) (referrer w)"

definition redirectLoopError :: js_error where
  "redirectLoopError =
     new_Error ''Redirect from login page. Rejecting to avoid infinite redirect loop.''"

definition unauthorizedError :: js_error where
  "unauthorizedError =
     (new_Error ''Failed to ensure the user is authenticated'')\<lparr>isRedirecting := True\<rparr>"

section \<open>The store of axios instances\<close>

text \<open>\<^verbatim>\<open>axios.create()\<close>: a new instance, without credentials and without interceptors.\<close>

definition axios_create :: "world \<Rightarrow> http_client \<times> world" where
  "axios_create w =
     (Axios (length (instances w)),
      w\<lparr>instances := instances w @
         [\<lparr>withCredentials = False, request_interceptors = [], response_interceptors = []\<rparr>]\<rparr>)"

text \<open>\<^verbatim>\<open>Object.create(c)\<close>\<close>

definition object_create :: "http_client \<Rightarrow> world \<Rightarrow> http_client \<times> world" where
  "object_create c w = (Derived (created w) c, w\<lparr>created := Suc (created w)\<rparr>)"

text \<open>
  A write through a handle reaches the instance at the end of its prototype chain. The
  handles that the services make name instances of the store; a handle that names none
  has nothing to change.
\<close>

definition update_instance ::
  "http_client \<Rightarrow> (axios_instance \<Rightarrow> axios_instance) \<Rightarrow> world \<Rightarrow> world" where
  "update_instance c f w =
     (let i = instance_of c in
      if i < length (instances w) then w\<lparr>instances := (instances w)[i := f (instances w ! i)]\<rparr>
      else w)"

text \<open>\<^verbatim>\<open>c.defaults.withCredentials = b\<close>\<close>

definition set_withCredentials :: "http_client \<Rightarrow> bool \<Rightarrow> world \<Rightarrow> world" where
  "set_withCredentials c b w = update_instance c (\<lambda>a. a\<lparr>withCredentials := b\<rparr>) w"

text \<open>\<^verbatim>\<open>c.interceptors.request.use(i)\<close>\<close>

definition use_request :: "http_client \<Rightarrow> interceptor \<Rightarrow> world \<Rightarrow> world" where
  "use_request c i w =
     update_instance c (\<lambda>a. a\<lparr>request_interceptors := request_interceptors a @ [i]\<rparr>) w"

text \<open>\<^verbatim>\<open>c.interceptors.response.use(response => response, i)\<close>\<close>

definition use_response :: "http_client \<Rightarrow> interceptor \<Rightarrow> world \<Rightarrow> world" where
  "use_response c i w =
     update_instance c (\<lambda>a. a\<lparr>response_interceptors := response_interceptors a @ [i]\<rparr>) w"

section \<open>AxiosJwtAuthService\<close>

record jwt_auth_service = auth_service +
  cachedAuthenticatedHttpClient :: "http_client option"
  cachedHttpClient :: "http_client option"
  middleware :: "middlewareFn list option"

definition addAuthenticationToHttpClient :: "http_client \<Rightarrow> world \<Rightarrow> http_client \<times> world" where
  "addAuthenticationToHttpClient newHttpClient w =
     (let (httpClient, w) = object_create newHttpClient w;
          w = set_withCredentials httpClient True w;
          w = use_request httpClient CsrfTokenProviderInterceptor w;
          w = use_request httpClient JwtTokenProviderInterceptor w;
          w = use_response httpClient ProcessAxiosRequestErrorInterceptor w
      in (httpClient, w))"

subsection \<open>The request interceptors\<close>

text \<open>
  The configuration of a request, as a request interceptor receives it: the URL, the
  method, the headers, and the flags \<^verbatim>\<open>isCsrfExempt\<close> and \<^verbatim>\<open>isPublic\<close>
  (\<^verbatim>\<open>undefined\<close> when the caller gave none).
\<close>

record request_config =
  url :: string
  "method" :: string
  headers :: "(string \<times> string) list"
  isCsrfExempt :: jsval
  isPublic :: jsval

text \<open>
  \<^verbatim>\<open>String.prototype.toLowerCase\<close> on code units below 256: the letters A to Z, and
  the capital letters from 192 to 222 (215, the multiplication sign, is not one).
\<close>

definition to_lower :: "char \<Rightarrow> char" where
  "to_lower c =
     (case map_of (zip ''ABCDEFGHIJKLMNOPQRSTUVWXYZ'' ''abcdefghijklmnopqrstuvwxyz'') c of
        Some l \<Rightarrow> l
      | None \<Rightarrow>
          (let n = (of_char c :: nat) in
           if 192 \<le> n \<and> n \<le> 222 \<and> n \<noteq> 215 then char_of (n + 32) else c))"

definition toLowerCase :: "string \<Rightarrow> string" where
  "toLowerCase s = map to_lower s"

text \<open>
  Before axios runs the request interceptors of a client it writes the method of the
  request in lower case.
\<close>

definition axios_request_config :: "request_config \<Rightarrow> request_config" where
  "axios_request_config c = c\<lparr>method := toLowerCase (method c)\<rparr>"

text \<open>The \<^verbatim>\<open>shouldSkip\<close> of the interceptor that refreshes the access token.\<close>

definition jwt_shouldSkip :: "request_config \<Rightarrow> jsval" where
  "jwt_shouldSkip axiosRequestConfig = isPublic axiosRequestConfig"

text \<open>The \<^verbatim>\<open>shouldSkip\<close> of the interceptor that attaches the CSRF token.\<close>

definition CSRF_PROTECTED_METHODS :: "string list" where
  "CSRF_PROTECTED_METHODS = [''post'', ''put'', ''patch'', ''delete'']"

definition csrf_shouldSkip :: "request_config \<Rightarrow> jsval" where
  "csrf_shouldSkip axiosRequestConfig =
     js_or (isCsrfExempt axiosRequestConfig)
       (JBool (method axiosRequestConfig \<notin> set CSRF_PROTECTED_METHODS))"

text \<open>
  The result of \<^verbatim>\<open>csrfTokenService.getCsrfToken(url, CSRF_TOKEN_API_PATH)\<close> is a
  parameter: the call rejects with an error, or resolves to the token.
\<close>

type_synonym csrf_token_service = "string \<Rightarrow> string \<Rightarrow> js_error + string"

text \<open>
  Modelled from the spec: \<^verbatim>\<open>createCsrfTokenProviderInterceptor\<close> of
  \<^verbatim>\<open>./interceptors\<close> is not among the sources. The interceptor that it makes is
  skipped when \<^verbatim>\<open>shouldSkip\<close> says so; otherwise it asks the token service for the
  anti-forgery token and sets it as a request header. A failure of the token service
  fails the request. The name of the header is a parameter.
\<close>

definition csrfTokenProviderInterceptor ::
  "(request_config \<Rightarrow> jsval) \<Rightarrow> csrf_token_service \<Rightarrow> string \<Rightarrow> string
     \<Rightarrow> request_config \<Rightarrow> world \<Rightarrow> (js_error + request_config) \<times> world" where
  "csrfTokenProviderInterceptor shouldSkip getCsrfToken tokenApiPath headerName
       axiosRequestConfig w =
     (if truthy (shouldSkip axiosRequestConfig) then (Inr axiosRequestConfig, w)
      else
        (let w = w\<lparr>csrf_token_calls :=
                   csrf_token_calls w @ [(url axiosRequestConfig, tokenApiPath)]\<rparr>
         in case getCsrfToken (url axiosRequestConfig) tokenApiPath of
              Inl e \<Rightarrow> (Inl e, w)
            | Inr csrfToken \<Rightarrow>
                (Inr (axiosRequestConfig\<lparr>headers :=
                        AList.update headerName csrfToken (headers axiosRequestConfig)\<rparr>),
                 w)))"

text \<open>
  The \<^verbatim>\<open>attachCsrfTokenInterceptor\<close> that \<^verbatim>\<open>addAuthenticationToHttpClient\<close>
  registers under the name \<^const>\<open>CsrfTokenProviderInterceptor\<close>.
\<close>

definition attachCsrfTokenInterceptor ::
  "csrf_token_service \<Rightarrow> string \<Rightarrow> config
     \<Rightarrow> request_config \<Rightarrow> world \<Rightarrow> (js_error + request_config) \<times> world" where
  "attachCsrfTokenInterceptor getCsrfToken headerName cfg =
     csrfTokenProviderInterceptor csrf_shouldSkip getCsrfToken (CSRF_TOKEN_API_PATH cfg) headerName"

text \<open>
  The result of \<^verbatim>\<open>jwtTokenService.getJwtToken(forceRefresh)\<close> is a parameter: the
  call rejects with an error, or resolves to the decoded token or to \<^verbatim>\<open>null\<close>.
\<close>

type_synonym jwt_token_service = "jsval \<Rightarrow> js_error + obj option"

definition jwt_fetchAuthenticatedUser ::
  "jwt_token_service \<Rightarrow> jsval \<Rightarrow> jwt_auth_service \<Rightarrow> world
     \<Rightarrow> (js_error + obj option) \<times> jwt_auth_service \<times> world" where
  "jwt_fetchAuthenticatedUser getJwtToken forceRefresh s w =
     (case getJwtToken (js_or forceRefresh (JBool False)) of
        Inl e \<Rightarrow> (Inl e, s, w)
      | Inr decodedAccessToken \<Rightarrow>
          (let s =
             (case decodedAccessToken of
                Some t \<Rightarrow>
                  setAuthenticatedUser (Some
                    [(''email'', get_prop t ''email''),
                     (''userId'', get_prop t ''user_id''),
                     (''username'', get_prop t ''preferred_username''),
                     (''roles'', js_or (get_prop t ''roles'') (JArr [])),
                     (''administrator'', get_prop t ''administrator''),
                     (''name'', get_prop t ''name'')]) s
              | None \<Rightarrow> setAuthenticatedUser None s)
           in (Inr (getAuthenticatedUser s), s, w)))"

definition jwt_ensureAuthenticatedUser ::
  "jwt_token_service \<Rightarrow> utf16 option \<Rightarrow> jwt_auth_service \<Rightarrow> world
     \<Rightarrow> (js_error + obj option) \<times> jwt_auth_service \<times> world" where
  "jwt_ensureAuthenticatedUser getJwtToken redirectUrl s w =
     (let redirectUrl = (case redirectUrl of None \<Rightarrow> BASE_URL (config s) | Some u \<Rightarrow> u) in
      case jwt_fetchAuthenticatedUser getJwtToken JUndefined s w of
        (Inl e, s, w) \<Rightarrow> (Inl e, s, w)
      | (Inr _, s, w) \<Rightarrow>
          if getAuthenticatedUser s = None then
            if isRedirectFromLoginPage s w then
              (Inl redirectLoopError, s, logFrontendAuthError (LogError redirectLoopError) w)
            else
              (case redirectToLogin (Some redirectUrl) s w of
                 (Some e, w) \<Rightarrow> (Inl e, s, w)
               | (None, w) \<Rightarrow> (Inl unauthorizedError, s, w))
          else (Inr (getAuthenticatedUser s), s, w))"

text \<open>
  Modelled from the spec: \<^verbatim>\<open>camelCaseObject\<close> of \<^verbatim>\<open>../utils\<close> is not among the
  sources. It converts the field names of a value from the snake_case of the wire to
  camelCase. The conversion of one name is the parameter \<open>camelCase\<close>. The fields of
  an object are assigned to a new object in their order, each under its converted name,
  so that of two names with the same conversion the later one wins; the values, and the
  elements of an array, are converted in the same way.
\<close>

fun camelCaseObject :: "(string \<Rightarrow> string) \<Rightarrow> jsval \<Rightarrow> jsval" where
  "camelCaseObject camelCase (JArr xs) = JArr (map (camelCaseObject camelCase) xs)"
| "camelCaseObject camelCase (JObj kvs) =
     JObj (assign_entries []
       (map (\<lambda>kv. (camelCase (fst kv), camelCaseObject camelCase (snd kv))) kvs))"
| "camelCaseObject camelCase v = v"

text \<open>
  The result of \<^verbatim>\<open>client.get(url)\<close> is a parameter: the request rejects with an
  error, or resolves to a response, of which the code reads \<^verbatim>\<open>data\<close>.
\<close>

record http_response =
  data :: jsval

type_synonym http_get = "http_client \<Rightarrow> string \<Rightarrow> js_error + http_response"

definition jwt_hydrateAuthenticatedUser ::
  "(string \<Rightarrow> string) \<Rightarrow> http_get \<Rightarrow> jwt_auth_service \<Rightarrow> world
     \<Rightarrow> (js_error + unit) \<times> jwt_auth_service \<times> world" where
  "jwt_hydrateAuthenticatedUser camelCase get s w =
     (case getAuthenticatedUser s of
        None \<Rightarrow> (Inr (), s, w)
      | Some user \<Rightarrow>
          (let url = LMS_BASE_URL (config s) @ ''/api/user/v1/accounts/'' @
                 js_toString (get_prop user ''username'');
               w = w\<lparr>requests := requests w @ [(authenticatedHttpClient s, url)]\<rparr>
           in case get (authenticatedHttpClient s) url of
                Inl e \<Rightarrow> (Inl e, s, w)
              | Inr response \<Rightarrow>
                  (Inr (),
                   setAuthenticatedUser
                     (Some (spread2 (JObj user) (camelCaseObject camelCase (data response)))) s,
                   w)))"

section \<open>DevelopmentAuthService\<close>

record dev_auth_service = auth_service +
  hydratedAuthenticatedUser :: obj

definition addConfigResponderToHttpClient ::
  "config \<Rightarrow> http_client \<Rightarrow> world \<Rightarrow> http_client \<times> world" where
  "addConfigResponderToHttpClient cfg newHttpClient w =
     (let w = w\<lparr>console := console w @ [''add config responder'']\<rparr>;
          (httpClient, w) = object_create newHttpClient w;
          apiConfig =
            (case dev cfg of
               None \<Rightarrow> []
             | Some d \<Rightarrow> (case dev_apiConfig d of None \<Rightarrow> [] | Some a \<Rightarrow> a));
          w = use_request httpClient (ApiInterceptor apiConfig) w
      in (httpClient, w))"

definition dev_constructor :: "config \<Rightarrow> world \<Rightarrow> dev_auth_service \<times> world" where
  "dev_constructor cfg w =
     (let (authenticatedUser, hydratedAuthenticatedUser) =
            (case dev cfg of
               None \<Rightarrow> (None, None)
             | Some d \<Rightarrow> (dev_authenticatedUser d, dev_hydratedAuthenticatedUser d));
          (a, w) = axios_create w;
          (authenticatedHttpClient, w) = addConfigResponderToHttpClient cfg a w;
          (b, w) = axios_create w;
          (httpClient, w) = addConfigResponderToHttpClient cfg b w
      in (\<lparr>config = cfg,
           authenticatedHttpClient = authenticatedHttpClient,
           httpClient = httpClient,
           authenticatedUser = (case authenticatedUser of None \<Rightarrow> None | Some u \<Rightarrow> Some u),
           hydratedAuthenticatedUser =
             (case hydratedAuthenticatedUser of None \<Rightarrow> [] | Some h \<Rightarrow> h)\<rparr>, w))"

definition dev_fetchAuthenticatedUser ::
  "dev_auth_service \<Rightarrow> world \<Rightarrow> (js_error + obj option) \<times> dev_auth_service \<times> world" where
  "dev_fetchAuthenticatedUser s w = (Inr (getAuthenticatedUser s), s, w)"

definition dev_ensureAuthenticatedUser ::
  "utf16 option \<Rightarrow> dev_auth_service \<Rightarrow> world
     \<Rightarrow> (js_error + obj option) \<times> dev_auth_service \<times> world" where
  "dev_ensureAuthenticatedUser redirectUrl s w =
     (let redirectUrl = (case redirectUrl of None \<Rightarrow> BASE_URL (config s) | Some u \<Rightarrow> u) in
      case dev_fetchAuthenticatedUser s w of
        (Inl e, s, w) \<Rightarrow> (Inl e, s, w)
      | (Inr _, s, w) \<Rightarrow>
          if getAuthenticatedUser s = None then
            if isRedirectFromLoginPage s w then
              (Inl redirectLoopError, s, logFrontendAuthError (LogError redirectLoopError) w)
            else
              (case redirectToLogin (Some redirectUrl) s w of
                 (Some e, w) \<Rightarrow> (Inl e, s, w)
               | (None, w) \<Rightarrow> (Inl unauthorizedError, s, w))
          else (Inr (getAuthenticatedUser s), s, w))"

definition dev_hydrateAuthenticatedUser ::
  "dev_auth_service \<Rightarrow> world \<Rightarrow> (js_error + obj option) \<times> dev_auth_service \<times> world" where
  "dev_hydrateAuthenticatedUser s w = (Inr (getAuthenticatedUser s), s, w)"

section \<open>Construction of the JWT service\<close>

record jwt_options =
  options_config :: config
  options_middleware :: "middlewareFn list option"

text \<open>
  The part of the constructor that runs before it returns. The promise of
  \<^verbatim>\<open>configureCache()\<close> is pending then: its handlers run later, whatever the promise
  settles to.
\<close>

definition jwt_constructor :: "jwt_options \<Rightarrow> world \<Rightarrow> jwt_auth_service \<times> world" where
  "jwt_constructor options w =
     (let (a, w) = axios_create w;
          (authenticatedHttpClient, w) = addAuthenticationToHttpClient a w;
          (httpClient, w) = axios_create w
      in (\<lparr>config = options_config options,
           authenticatedHttpClient = authenticatedHttpClient,
           httpClient = httpClient,
           authenticatedUser = None,
           cachedAuthenticatedHttpClient = None,
           cachedHttpClient = None,
           middleware = None\<rparr>, w))"

definition jwt_getMiddlewareClients :: "jwt_auth_service \<Rightarrow> http_client option list" where
  "jwt_getMiddlewareClients s =
     [Some (authenticatedHttpClient s),
      Some (httpClient s),
      cachedAuthenticatedHttpClient s,
      cachedHttpClient s]"

definition jwt_applyMiddleware ::
  "middlewareFn list option \<Rightarrow> jwt_auth_service \<Rightarrow> world \<Rightarrow> js_error option \<times> world" where
  "jwt_applyMiddleware fns s w = applyMiddleware fns (jwt_getMiddlewareClients s) w"

text \<open>
  The getters take \<^verbatim>\<open>options.useCache\<close>, which is \<^verbatim>\<open>undefined\<close> when the options
  or the flag are omitted. The cached clients are \<^verbatim>\<open>null\<close> (\<open>None\<close>) until a
  handler of the cache promise assigns them.
\<close>

definition jwt_getAuthenticatedHttpClient :: "jsval \<Rightarrow> jwt_auth_service \<Rightarrow> http_client option" where
  "jwt_getAuthenticatedHttpClient useCache s =
     (if truthy useCache then cachedAuthenticatedHttpClient s
      else Some (getAuthenticatedHttpClient s))"

definition jwt_getHttpClient :: "jsval \<Rightarrow> jwt_auth_service \<Rightarrow> http_client option" where
  "jwt_getHttpClient useCache s =
     (if truthy useCache then cachedHttpClient s else Some (getHttpClient s))"

subsection \<open>The handlers of the cache promise\<close>

text \<open>
  The outcome of \<^verbatim>\<open>configureCache()\<close> is a parameter: the promise rejects with an
  error, or resolves to the cached axios client, an axios instance that joins the store
  as it is.
\<close>

definition store_instance :: "axios_instance \<Rightarrow> world \<Rightarrow> http_client \<times> world" where
  "store_instance a w = (Axios (length (instances w)), w\<lparr>instances := instances w @ [a]\<rparr>)"

text \<open>\<^verbatim>\<open>.then((cachedAxiosClient) => ...)\<close>\<close>

definition configureCache_then ::
  "http_client \<Rightarrow> jwt_auth_service \<Rightarrow> world \<Rightarrow> jwt_auth_service \<times> world" where
  "configureCache_then cachedAxiosClient s w =
     (let (c, w) = addAuthenticationToHttpClient cachedAxiosClient w;
          s = s\<lparr>cachedAuthenticatedHttpClient := Some c\<rparr>;
          s = s\<lparr>cachedHttpClient := Some cachedAxiosClient\<rparr>
      in (s, w))"

text \<open>\<^verbatim>\<open>.catch((e) => ...)\<close>\<close>

definition configureCache_catch ::
  "js_error \<Rightarrow> jwt_auth_service \<Rightarrow> world \<Rightarrow> jwt_auth_service \<times> world" where
  "configureCache_catch e s w =
     (let s = s\<lparr>cachedAuthenticatedHttpClient := Some (authenticatedHttpClient s)\<rparr>;
          s = s\<lparr>cachedHttpClient := Some (httpClient s)\<rparr>;
          w = logFrontendAuthError
                (LogMessage (''configureCache failed with error: '' @ message e)) w
      in (s, w))"

text \<open>\<^verbatim>\<open>.finally(() => ...)\<close>\<close>

definition configureCache_finally ::
  "jwt_options \<Rightarrow> jwt_auth_service \<Rightarrow> world \<Rightarrow> js_error option \<times> jwt_auth_service \<times> world" where
  "configureCache_finally options s w =
     (let s = s\<lparr>middleware := options_middleware options\<rparr>;
          (error, w) = jwt_applyMiddleware (options_middleware options) s w
      in (error, s, w))"

text \<open>
  The chain \<^verbatim>\<open>configureCache().then(...).catch(...).finally(...)\<close> once the promise
  has settled. Neither of the first two handlers throws on these inputs, so exactly one
  of them runs, and then the last. The error of the result is the rejection of the
  promise that the chain ends with: nothing handles it, and no caller receives it.
\<close>

definition configureCache_settled ::
  "jwt_options \<Rightarrow> js_error + axios_instance \<Rightarrow> jwt_auth_service \<Rightarrow> world
     \<Rightarrow> js_error option \<times> jwt_auth_service \<times> world" where
  "configureCache_settled options outcome s w =
     (let (s, w) =
        (case outcome of
           Inr a \<Rightarrow>
             (let (cachedAxiosClient, w) = store_instance a w
              in configureCache_then cachedAxiosClient s w)
         | Inl e \<Rightarrow> configureCache_catch e s w)
      in configureCache_finally options s w)"

subsection \<open>Calls on the service\<close>

text \<open>
  What a caller can do with the service while the cache promise is pending: the calls
  of the interface of the module that change the service or the world. A call carries
  the collaborators' answers that it will meet.
\<close>

datatype jwt_call =
    FetchAuthenticatedUser jwt_token_service jsval
  | EnsureAuthenticatedUser jwt_token_service "utf16 option"
  | HydrateAuthenticatedUser "string \<Rightarrow> string" http_get
  | SetAuthenticatedUser "obj option"
  | RedirectToLogin "utf16 option"
  | RedirectToLogout "utf16 option"

fun jwt_do :: "jwt_call \<Rightarrow> jwt_auth_service \<times> world \<Rightarrow> jwt_auth_service \<times> world" where
  "jwt_do (FetchAuthenticatedUser getJwtToken forceRefresh) (s, w) =
     snd (jwt_fetchAuthenticatedUser getJwtToken forceRefresh s w)"
| "jwt_do (EnsureAuthenticatedUser getJwtToken redirectUrl) (s, w) =
     snd (jwt_ensureAuthenticatedUser getJwtToken redirectUrl s w)"
| "jwt_do (HydrateAuthenticatedUser camelCase get) (s, w) =
     snd (jwt_hydrateAuthenticatedUser camelCase get s w)"
| "jwt_do (SetAuthenticatedUser authUser) (s, w) = (setAuthenticatedUser authUser s, w)"
| "jwt_do (RedirectToLogin redirectUrl) (s, w) = (s, snd (redirectToLogin redirectUrl s w))"
| "jwt_do (RedirectToLogout redirectUrl) (s, w) = (s, snd (redirectToLogout redirectUrl s w))"

definition jwt_run :: "jwt_call list \<Rightarrow> jwt_auth_service \<times> world \<Rightarrow> jwt_auth_service \<times> world" where
  "jwt_run calls sw = fold jwt_do calls sw"

text \<open>The clients of a list that are not \<^verbatim>\<open>null\<close>.\<close>

fun non_null :: "'a option list \<Rightarrow> 'a list" where
  "non_null [] = []"
| "non_null (None # xs) = non_null xs"
| "non_null (Some x # xs) = x # non_null xs"

section \<open>The credential provider\<close>

text \<open>
  Modelled from the spec: the token services (\<^verbatim>\<open>AxiosJwtTokenService\<close>,
  \<^verbatim>\<open>AxiosCsrfTokenService\<close>) are not among the sources. A provider owns one value
  (the credential, or the anti-forgery token): the cached value if there is one, the
  in-flight marker of the single pending refresh with the callers that await it, in the
  order of their arrival, the number of refresh calls made to the backend so far, and the
  results that callers have received.

  Tasks interleave on one event loop, so the provider sees one event at a time: a caller
  asks for the value, or the pending refresh settles. A caller is answered from the cache
  without a refresh; with none cached it joins the pending refresh when the marker is
  set, and starts the refresh and sets the marker otherwise. When the refresh settles,
  with a value or with a failure, every caller that awaits it receives that result, a
  value is cached, and the marker is cleared.
\<close>

record 'v provider =
  cached :: "'v option"
  in_flight :: "nat list option"
  refreshes :: nat
  received :: "(nat \<times> (js_error + 'v)) list"

datatype 'v provider_event = Call nat | Settle "js_error + 'v"

fun provider_step :: "'v provider_event \<Rightarrow> 'v provider \<Rightarrow> 'v provider" where
  "provider_step (Call i) p =
     (case cached p of
        Some v \<Rightarrow> p\<lparr>received := received p @ [(i, Inr v)]\<rparr>
      | None \<Rightarrow>
          (case in_flight p of
             Some waiting \<Rightarrow> p\<lparr>in_flight := Some (waiting @ [i])\<rparr>
           | None \<Rightarrow> p\<lparr>in_flight := Some [i], refreshes := Suc (refreshes p)\<rparr>))"
| "provider_step (Settle r) p =
     (case in_flight p of
        None \<Rightarrow> p
      | Some waiting \<Rightarrow>
          p\<lparr>cached := (case r of Inl e \<Rightarrow> cached p | Inr v \<Rightarrow> Some v),
            in_flight := None,
            received := received p @ map (\<lambda>i. (i, r)) waiting\<rparr>)"

definition provider_run :: "'v provider_event list \<Rightarrow> 'v provider \<Rightarrow> 'v provider" where
  "provider_run events p = fold provider_step events p"

text \<open>A provider at startup: nothing cached, nothing pending.\<close>

definition new_provider :: "'v provider" where
  "new_provider = \<lparr>cached = None, in_flight = None, refreshes = 0, received = []\<rparr>"

section \<open>Sample inputs\<close>

definition sample_config :: config where
  "sample_config =
     \<lparr>BASE_URL = utf16_of ''http://localhost:8080'',
      LMS_BASE_URL = ''http://localhost:18000'',
      LOGIN_URL = ''http://localhost:18000/login'',
      LOGOUT_URL = ''http://localhost:18000/logout'',
      REFRESH_ACCESS_TOKEN_ENDPOINT = ''http://localhost:18000/login_refresh'',
      ACCESS_TOKEN_COOKIE_NAME = ''edx-jwt-cookie-header-payload'',
      CSRF_TOKEN_API_PATH = ''/csrf/api/v1/token'',
      dev = None\<rparr>"

text \<open>A page opened directly: the referrer is the empty string.\<close>

definition sample_world :: world where
  "sample_world =
     \<lparr>referrer = [], navigations = [], logged = [], requests = [], console = [],
      instances = [], created = 0, applied = [], csrf_token_calls = []\<rparr>"

text \<open>A token service that finds no credential: it resolves to \<^verbatim>\<open>null\<close>.\<close>

definition no_token :: jwt_token_service where
  "no_token forceRefresh = Inr None"

definition sample_jwt_options :: jwt_options where
  "sample_jwt_options = \<lparr>options_config = sample_config, options_middleware = None\<rparr>"

definition sample_jwt :: jwt_auth_service where
  "sample_jwt = fst (jwt_constructor sample_jwt_options sample_world)"

definition sample_jwt_world :: world where
  "sample_jwt_world = snd (jwt_constructor sample_jwt_options sample_world)"

definition sample_dev :: dev_auth_service where
  "sample_dev = fst (dev_constructor sample_config sample_world)"

definition sample_dev_world :: world where
  "sample_dev_world = snd (dev_constructor sample_config sample_world)"

text \<open>The JWT service of the samples, configured with an empty login URL.\<close>

definition empty_login_jwt :: jwt_auth_service where
  "empty_login_jwt = sample_jwt\<lparr>config := sample_config\<lparr>LOGIN_URL := []\<rparr>\<rparr>"

text \<open>The worlds of the samples, on a page that the login page referred to.\<close>

definition from_login_jwt_world :: world where
  "from_login_jwt_world = sample_jwt_world\<lparr>referrer := ''http://localhost:18000/login''\<rparr>"

definition from_login_dev_world :: world where
  "from_login_dev_world = sample_dev_world\<lparr>referrer := ''http://localhost:18000/login''\<rparr>"

text \<open>
  For the samples: the conversion of a name made of lower-case words joined by single
  underscores.
\<close>

definition to_upper :: "char \<Rightarrow> char" where
  "to_upper c =
     (case map_of (zip ''abcdefghijklmnopqrstuvwxyz'' ''ABCDEFGHIJKLMNOPQRSTUVWXYZ'') c of
        None \<Rightarrow> c
      | Some u \<Rightarrow> u)"

fun snake_to_camel :: "string \<Rightarrow> string" where
  "snake_to_camel [] = []"
| "snake_to_camel [c] = (if c = CHR ''_'' then [] else [c])"
| "snake_to_camel (c # d # ds) =
     (if c = CHR ''_'' then to_upper d # snake_to_camel ds else c # snake_to_camel (d # ds))"

text \<open>The user and the profile response of the example of the specification.\<close>

definition sample_user :: obj where
  "sample_user =
     [(''userId'', JStr ''1''), (''username'', JStr ''a''), (''roles'', JArr [JStr ''x''])]"

definition sample_profile :: http_get where
  "sample_profile client requestUrl = Inr \<lparr>data = JObj [(''full_name'', JStr ''A B'')]\<rparr>"

text \<open>The JWT service of the samples, after a fetch that found this user.\<close>

definition authenticated_jwt :: jwt_auth_service where
  "authenticated_jwt = setAuthenticatedUser (Some sample_user) sample_jwt"

text \<open>A development configuration with a mock user and a mock hydrated user.\<close>

definition hydrated_sample_user :: obj where
  "hydrated_sample_user = sample_user @ [(''name'', JStr ''A B'')]"

definition mock_config :: config where
  "mock_config =
     sample_config\<lparr>dev := Some
       \<lparr>dev_authenticatedUser = Some sample_user,
        dev_hydratedAuthenticatedUser = Some hydrated_sample_user,
        dev_apiConfig = None\<rparr>\<rparr>"

definition mock_dev :: dev_auth_service where
  "mock_dev = fst (dev_constructor mock_config sample_world)"

definition mock_dev_world :: world where
  "mock_dev_world = snd (dev_constructor mock_config sample_world)"

text \<open>
  A middleware function that registers a request interceptor on the client it is
  handed, and options that configure it.
\<close>

definition tag_requests :: middlewareFn where
  "tag_requests client store =
     (None,
      (let i = instance_of client in
       if i < length store
       then store[i := (store ! i)\<lparr>request_interceptors :=
              request_interceptors (store ! i) @ [OtherInterceptor ''tag'']\<rparr>]
       else store))"

definition tagging_options :: jwt_options where
  "tagging_options = \<lparr>options_config = sample_config, options_middleware = Some [tag_requests]\<rparr>"

definition tagging_jwt :: jwt_auth_service where
  "tagging_jwt = fst (jwt_constructor tagging_options sample_world)"

definition tagging_jwt_world :: world where
  "tagging_jwt_world = snd (jwt_constructor tagging_options sample_world)"

text \<open>The two outcomes of the cache promise: an error, and a new axios instance.\<close>

definition cache_error :: js_error where
  "cache_error = new_Error ''No available storage method found.''"

definition cached_instance :: axios_instance where
  "cached_instance =
     \<lparr>withCredentials = False, request_interceptors = [], response_interceptors = []\<rparr>"

text \<open>The service with the tagging middleware, after the cache promise has settled.\<close>

definition cache_failed :: "js_error option \<times> jwt_auth_service \<times> world" where
  "cache_failed =
     configureCache_settled tagging_options (Inl cache_error) tagging_jwt tagging_jwt_world"

definition cache_configured :: "js_error option \<times> jwt_auth_service \<times> world" where
  "cache_configured =
     configureCache_settled tagging_options (Inr cached_instance) tagging_jwt tagging_jwt_world"

text \<open>A token service with one token, and one that fails.\<close>

definition sample_csrf_token :: csrf_token_service where
  "sample_csrf_token requestUrl tokenApiPath = Inr ''token-1''"

definition failing_csrf_token :: csrf_token_service where
  "failing_csrf_token requestUrl tokenApiPath = Inl (new_Error ''Network Error'')"

text \<open>Two requests as callers write them: a POST, and a POST flagged as exempt.\<close>

definition sample_post :: request_config where
  "sample_post =
     \<lparr>url = ''http://localhost:18000/api/enrollment'', method = ''POST'',
      headers = [(''Accept'', ''application/json'')],
      isCsrfExempt = JUndefined, isPublic = JUndefined\<rparr>"

definition exempt_post :: request_config where
  "exempt_post = sample_post\<lparr>isCsrfExempt := JBool True\<rparr>"

text \<open>
  A middleware function that throws, and the service configured with it after the cache
  promise resolved.
\<close>

definition throwing_middleware :: middlewareFn where
  "throwing_middleware client store = (Some (new_Error ''middleware failed''), store)"

definition throwing_options :: jwt_options where
  "throwing_options =
     \<lparr>options_config = sample_config, options_middleware = Some [throwing_middleware]\<rparr>"

definition throwing_configured :: "js_error option \<times> jwt_auth_service \<times> world" where
  "throwing_configured =
     configureCache_settled throwing_options (Inr cached_instance)
       (fst (jwt_constructor throwing_options sample_world))
       (snd (jwt_constructor throwing_options sample_world))"

text \<open>A redirect URL that ends in a lone leading surrogate.\<close>

definition lone_surrogate_url :: utf16 where
  "lone_surrogate_url = utf16_of ''http://localhost:8080/'' @ [0xD800]"

text \<open>
  A profile response with two fields of which the names have the same conversion.
\<close>

definition colliding_profile :: http_get where
  "colliding_profile client requestUrl =
     Inr \<lparr>data = JObj [(''full_name'', JStr ''A''), (''fullName'', JStr ''B'')]\<rparr>"

section \<open>Evaluation of the constructors on the sample inputs\<close>

lemmas store_defs =
  axios_create_def object_create_def update_instance_def set_withCredentials_def
  use_request_def use_response_def

lemmas enc_defs =
  encodeURIComponent_def utf16_of_def encode_code_point_def unreserved_char_def
  uri_unreserved_def utf8_bytes_def percent_byte_def digit_char_def is_lead_def is_trail_def
  prepend_def

lemmas sample_defs =
  sample_config_def sample_world_def sample_jwt_options_def
  jwt_constructor_def addAuthenticationToHttpClient_def
  dev_constructor_def addConfigResponderToHttpClient_def

lemma sample_jwt_eq:
  "sample_jwt =
     \<lparr>config = sample_config,
      authenticatedHttpClient = Derived 0 (Axios 0),
      httpClient = Axios 1,
      authenticatedUser = None,
      cachedAuthenticatedHttpClient = None,
      cachedHttpClient = None,
      middleware = None\<rparr>"
  by (simp add: sample_jwt_def sample_defs store_defs)

lemma sample_jwt_world_eq:
  "sample_jwt_world =
     \<lparr>referrer = [], navigations = [], logged = [], requests = [], console = [],
      instances =
        [\<lparr>withCredentials = True,
          request_interceptors = [CsrfTokenProviderInterceptor, JwtTokenProviderInterceptor],
          response_interceptors = [ProcessAxiosRequestErrorInterceptor]\<rparr>,
         \<lparr>withCredentials = False, request_interceptors = [], response_interceptors = []\<rparr>],
      created = 1, applied = [], csrf_token_calls = []\<rparr>"
  by (simp add: sample_jwt_world_def sample_defs store_defs)

lemma sample_dev_eq:
  "sample_dev =
     \<lparr>config = sample_config,
      authenticatedHttpClient = Derived 0 (Axios 0),
      httpClient = Derived 1 (Axios 1),
      authenticatedUser = None,
      hydratedAuthenticatedUser = []\<rparr>"
  by (simp add: sample_dev_def sample_defs store_defs)

lemma sample_dev_world_eq:
  "sample_dev_world =
     \<lparr>referrer = [], navigations = [], logged = [], requests = [],
      console = [''add config responder'', ''add config responder''],
      instances =
        [\<lparr>withCredentials = False, request_interceptors = [ApiInterceptor []],
          response_interceptors = []\<rparr>,
         \<lparr>withCredentials = False, request_interceptors = [ApiInterceptor []],
          response_interceptors = []\<rparr>],
      created = 2, applied = [], csrf_token_calls = []\<rparr>"
  by (simp add: sample_dev_world_def sample_defs store_defs)

text \<open>The example of the documentation of \<^verbatim>\<open>getLoginRedirectUrl\<close>.\<close>

lemma getLoginRedirectUrl_example:
  "getLoginRedirectUrl (Some (utf16_of ''http://localhost/mypage''))
     (sample_dev\<lparr>config := sample_config\<lparr>LOGIN_URL := ''http://localhost/login''\<rparr>\<rparr>) =
   Inr ''http://localhost/login?next=http%3A%2F%2Flocalhost%2Fmypage''"
  by (simp add: getLoginRedirectUrl_def enc_defs)

text \<open>Two characters outside the Basic Multilingual Plane and below it, and a lone surrogate.\<close>

lemma encodeURIComponent_examples:
  "encodeURIComponent [0xD83D, 0xDE00] = Inr ''%F0%9F%98%80''"
  "encodeURIComponent [0x20AC, 0xE9] = Inr ''%E2%82%AC%C3%A9''"
  "encodeURIComponent [0xDE00, 0xD83D] = Inl URIError"
  by (simp_all add: enc_defs)

text \<open>\<^verbatim>\<open>encodeURIComponent\<close> throws exactly on the strings with a lone surrogate.\<close>

lemma encode_units_well_formed:
  "(\<exists>encoded. encode_units us = Inr encoded) \<longleftrightarrow> well_formed_units us"
  by (induction us rule: encode_units.induct) (auto simp: prepend_def split: sum.splits)

lemma encode_units_throws: "encode_units us = Inl e \<Longrightarrow> e = URIError"
  by (induction us rule: encode_units.induct) (auto simp: prepend_def split: sum.splits if_splits)

lemma encodeURIComponent_well_formed:
  "(\<exists>encoded. encodeURIComponent s = Inr encoded) \<longleftrightarrow> well_formed s"
  by (simp add: encodeURIComponent_def well_formed_def encode_units_well_formed)

lemma encode_base_url:
  "encodeURIComponent (BASE_URL sample_config) = Inr ''http%3A%2F%2Flocalhost%3A8080''"
  by (simp add: sample_config_def enc_defs)

section \<open>ensureAuthenticatedUser\<close>

text \<open>
  C1, as amended. For the JWT service and for the development service: if after
  \<^verbatim>\<open>fetchAuthenticatedUser\<close> the session is anonymous, and the referrer is not empty
  and equals the configured login URL, then \<^verbatim>\<open>ensureAuthenticatedUser\<close> rejects with
  the redirect-loop error, which it reports to the log, and does not navigate.
\<close>

theorem ensureAuthenticatedUser_redirect_loop:
  "(referrer w \<noteq> [] \<and> referrer w = LOGIN_URL (config s) \<and>
    jwt_fetchAuthenticatedUser getJwtToken JUndefined s w = (Inr u, s', w') \<and>
    getAuthenticatedUser s' = None \<longrightarrow>
      jwt_ensureAuthenticatedUser getJwtToken redirectUrl s w =
        (Inl redirectLoopError, s', logFrontendAuthError (LogError redirectLoopError) w') \<and>
      navigations (logFrontendAuthError (LogError redirectLoopError) w') = navigations w) \<and>
   (referrer v \<noteq> [] \<and> referrer v = LOGIN_URL (config d) \<and>
    dev_fetchAuthenticatedUser d v = (Inr u, d', v') \<and>
    getAuthenticatedUser d' = None \<longrightarrow>
      dev_ensureAuthenticatedUser redirectUrl d v =
        (Inl redirectLoopError, d', logFrontendAuthError (LogError redirectLoopError) v') \<and>
      navigations (logFrontendAuthError (LogError redirectLoopError) v') = navigations v)"
proof (intro conjI impI)
  assume h: "referrer w \<noteq> [] \<and> referrer w = LOGIN_URL (config s) \<and>
    jwt_fetchAuthenticatedUser getJwtToken JUndefined s w = (Inr u, s', w') \<and>
    getAuthenticatedUser s' = None"
  then have w': "w' = w" and cfg: "config s' = config s"
    by (auto simp: jwt_fetchAuthenticatedUser_def setAuthenticatedUser_def Let_def
        split: sum.splits option.splits)
  from h w' cfg have loop: "isRedirectFromLoginPage s' w'"
    by (auto simp: isRedirectFromLoginPage_def)
  from h loop show "jwt_ensureAuthenticatedUser getJwtToken redirectUrl s w =
        (Inl redirectLoopError, s', logFrontendAuthError (LogError redirectLoopError) w')"
    by (simp add: jwt_ensureAuthenticatedUser_def)
  from w' show "navigations (logFrontendAuthError (LogError redirectLoopError) w') = navigations w"
    by (simp add: logFrontendAuthError_def)
next
  assume h: "referrer v \<noteq> [] \<and> referrer v = LOGIN_URL (config d) \<and>
    dev_fetchAuthenticatedUser d v = (Inr u, d', v') \<and>
    getAuthenticatedUser d' = None"
  then have v': "v' = v" and d': "d' = d"
    by (auto simp: dev_fetchAuthenticatedUser_def)
  from h v' d' have loop: "isRedirectFromLoginPage d' v'"
    by (auto simp: isRedirectFromLoginPage_def)
  from h loop show "dev_ensureAuthenticatedUser redirectUrl d v =
        (Inl redirectLoopError, d', logFrontendAuthError (LogError redirectLoopError) v')"
    by (simp add: dev_ensureAuthenticatedUser_def)
  from v' show "navigations (logFrontendAuthError (LogError redirectLoopError) v') = navigations v"
    by (simp add: logFrontendAuthError_def)
qed

text \<open>
  Both services of the samples, anonymous, on a page that the login page referred to:
  the rejection is the redirect-loop error and no navigation is recorded.
\<close>

theorem ensureAuthenticatedUser_redirect_loop_witness:
  "(referrer from_login_jwt_world \<noteq> [] \<and>
    referrer from_login_jwt_world = LOGIN_URL (config sample_jwt) \<and>
    jwt_fetchAuthenticatedUser no_token JUndefined sample_jwt from_login_jwt_world =
      (Inr None, sample_jwt, from_login_jwt_world) \<and>
    getAuthenticatedUser sample_jwt = None) \<and>
   jwt_ensureAuthenticatedUser no_token None sample_jwt from_login_jwt_world =
     (Inl redirectLoopError, sample_jwt,
      logFrontendAuthError (LogError redirectLoopError) from_login_jwt_world) \<and>
   navigations (logFrontendAuthError (LogError redirectLoopError) from_login_jwt_world) = [] \<and>
   (referrer from_login_dev_world \<noteq> [] \<and>
    referrer from_login_dev_world = LOGIN_URL (config sample_dev) \<and>
    dev_fetchAuthenticatedUser sample_dev from_login_dev_world =
      (Inr None, sample_dev, from_login_dev_world) \<and>
    getAuthenticatedUser sample_dev = None) \<and>
   dev_ensureAuthenticatedUser None sample_dev from_login_dev_world =
     (Inl redirectLoopError, sample_dev,
      logFrontendAuthError (LogError redirectLoopError) from_login_dev_world) \<and>
   navigations (logFrontendAuthError (LogError redirectLoopError) from_login_dev_world) = []"
proof -
  have jwt: "referrer from_login_jwt_world \<noteq> [] \<and>
    referrer from_login_jwt_world = LOGIN_URL (config sample_jwt) \<and>
    jwt_fetchAuthenticatedUser no_token JUndefined sample_jwt from_login_jwt_world =
      (Inr None, sample_jwt, from_login_jwt_world) \<and>
    getAuthenticatedUser sample_jwt = None"
    by (simp add: from_login_jwt_world_def sample_jwt_eq sample_jwt_world_eq sample_config_def
        jwt_fetchAuthenticatedUser_def no_token_def setAuthenticatedUser_def
        getAuthenticatedUser_def)
  have dev: "referrer from_login_dev_world \<noteq> [] \<and>
    referrer from_login_dev_world = LOGIN_URL (config sample_dev) \<and>
    dev_fetchAuthenticatedUser sample_dev from_login_dev_world =
      (Inr None, sample_dev, from_login_dev_world) \<and>
    getAuthenticatedUser sample_dev = None"
    by (simp add: from_login_dev_world_def sample_dev_eq sample_dev_world_eq sample_config_def
        dev_fetchAuthenticatedUser_def getAuthenticatedUser_def)
  have nav: "navigations from_login_jwt_world = []" "navigations from_login_dev_world = []"
    by (simp_all add: from_login_jwt_world_def from_login_dev_world_def
        sample_jwt_world_eq sample_dev_world_eq)
  from jwt dev nav
    ensureAuthenticatedUser_redirect_loop
      [where w = from_login_jwt_world and s = sample_jwt and getJwtToken = no_token
         and u = None and s' = sample_jwt and w' = from_login_jwt_world
         and redirectUrl = None
         and v = from_login_dev_world and d = sample_dev and d' = sample_dev
         and v' = from_login_dev_world]
  show ?thesis by auto
qed

text \<open>
  Without the condition that the referrer is not empty the statement fails. A page
  opened directly has the empty referrer; with an empty login URL the referrer equals
  the login URL, and the service navigates and rejects with the redirecting error.
\<close>

theorem ensureAuthenticatedUser_redirect_loop_counterexample:
  "referrer sample_jwt_world = LOGIN_URL (config empty_login_jwt) \<and>
   jwt_fetchAuthenticatedUser no_token JUndefined empty_login_jwt sample_jwt_world =
     (Inr None, empty_login_jwt, sample_jwt_world) \<and>
   getAuthenticatedUser empty_login_jwt = None \<and>
   jwt_ensureAuthenticatedUser no_token None empty_login_jwt sample_jwt_world =
     (Inl unauthorizedError, empty_login_jwt,
      sample_jwt_world\<lparr>navigations := [''?next=http%3A%2F%2Flocalhost%3A8080'']\<rparr>) \<and>
   unauthorizedError \<noteq> redirectLoopError \<and>
   navigations (sample_jwt_world\<lparr>navigations := [''?next=http%3A%2F%2Flocalhost%3A8080'']\<rparr>)
     \<noteq> navigations sample_jwt_world"
  by (simp add: empty_login_jwt_def sample_jwt_eq sample_jwt_world_eq sample_config_def
      jwt_ensureAuthenticatedUser_def jwt_fetchAuthenticatedUser_def no_token_def
      setAuthenticatedUser_def getAuthenticatedUser_def isRedirectFromLoginPage_def
      redirectToLogin_def location_assign_def getLoginRedirectUrl_def
      unauthorizedError_def redirectLoopError_def new_Error_def enc_defs)

text \<open>
  C2, as amended. For the JWT service and for the development service: if after
  \<^verbatim>\<open>fetchAuthenticatedUser\<close> the session is anonymous, the referrer-loop condition
  (a referrer that is not empty and starts with the login URL) does not hold, and the
  \<open>redirectUrl\<close> argument (the base URL when the argument is omitted) has no lone
  surrogate, then \<^verbatim>\<open>ensureAuthenticatedUser\<close> navigates exactly once, to the login URL
  followed by \<^verbatim>\<open>?next=\<close> and the URL-encoded \<open>redirectUrl\<close>, and rejects with an
  error whose \<^verbatim>\<open>isRedirecting\<close> flag is set.
\<close>

theorem ensureAuthenticatedUser_redirects:
  "(jwt_fetchAuthenticatedUser getJwtToken JUndefined s w = (Inr u, s', w') \<and>
    getAuthenticatedUser s' = None \<and> \<not> isRedirectFromLoginPage s' w' \<and>
    well_formed (case redirectUrl of None \<Rightarrow> BASE_URL (config s) | Some x \<Rightarrow> x) \<longrightarrow>
      (\<exists>encoded.
         encodeURIComponent (case redirectUrl of None \<Rightarrow> BASE_URL (config s) | Some x \<Rightarrow> x) =
           Inr encoded \<and>
         jwt_ensureAuthenticatedUser getJwtToken redirectUrl s w =
           (Inl unauthorizedError, s',
            w'\<lparr>navigations := navigations w' @
              [LOGIN_URL (config s) @ ''?next='' @ encoded]\<rparr>)) \<and>
      w' = w \<and> isRedirecting unauthorizedError) \<and>
   (dev_fetchAuthenticatedUser d v = (Inr u, d', v') \<and>
    getAuthenticatedUser d' = None \<and> \<not> isRedirectFromLoginPage d' v' \<and>
    well_formed (case redirectUrl of None \<Rightarrow> BASE_URL (config d) | Some x \<Rightarrow> x) \<longrightarrow>
      (\<exists>encoded.
         encodeURIComponent (case redirectUrl of None \<Rightarrow> BASE_URL (config d) | Some x \<Rightarrow> x) =
           Inr encoded \<and>
         dev_ensureAuthenticatedUser redirectUrl d v =
           (Inl unauthorizedError, d',
            v'\<lparr>navigations := navigations v' @
              [LOGIN_URL (config d) @ ''?next='' @ encoded]\<rparr>)) \<and>
      v' = v \<and> isRedirecting unauthorizedError)"
proof (intro conjI impI)
  assume h: "jwt_fetchAuthenticatedUser getJwtToken JUndefined s w = (Inr u, s', w') \<and>
    getAuthenticatedUser s' = None \<and> \<not> isRedirectFromLoginPage s' w' \<and>
    well_formed (case redirectUrl of None \<Rightarrow> BASE_URL (config s) | Some x \<Rightarrow> x)"
  then show w': "w' = w"
    by (auto simp: jwt_fetchAuthenticatedUser_def Let_def split: sum.splits)
  from h have cfg: "config s' = config s"
    by (auto simp: jwt_fetchAuthenticatedUser_def setAuthenticatedUser_def Let_def
        split: sum.splits option.splits)
  from h obtain encoded where encoded:
    "encodeURIComponent (case redirectUrl of None \<Rightarrow> BASE_URL (config s) | Some x \<Rightarrow> x) =
      Inr encoded"
    using encodeURIComponent_well_formed by blast
  with h cfg have "jwt_ensureAuthenticatedUser getJwtToken redirectUrl s w =
      (Inl unauthorizedError, s',
       w'\<lparr>navigations := navigations w' @ [LOGIN_URL (config s) @ ''?next='' @ encoded]\<rparr>)"
    by (simp add: jwt_ensureAuthenticatedUser_def redirectToLogin_def location_assign_def
        getLoginRedirectUrl_def)
  with encoded show "\<exists>encoded.
         encodeURIComponent (case redirectUrl of None \<Rightarrow> BASE_URL (config s) | Some x \<Rightarrow> x) =
           Inr encoded \<and>
         jwt_ensureAuthenticatedUser getJwtToken redirectUrl s w =
           (Inl unauthorizedError, s',
            w'\<lparr>navigations := navigations w' @
              [LOGIN_URL (config s) @ ''?next='' @ encoded]\<rparr>)"
    by blast
  show "isRedirecting unauthorizedError"
    by (simp add: unauthorizedError_def)
next
  assume h: "dev_fetchAuthenticatedUser d v = (Inr u, d', v') \<and>
    getAuthenticatedUser d' = None \<and> \<not> isRedirectFromLoginPage d' v' \<and>
    well_formed (case redirectUrl of None \<Rightarrow> BASE_URL (config d) | Some x \<Rightarrow> x)"
  then show "v' = v"
    by (auto simp: dev_fetchAuthenticatedUser_def)
  from h have d': "d' = d"
    by (auto simp: dev_fetchAuthenticatedUser_def)
  from h obtain encoded where encoded:
    "encodeURIComponent (case redirectUrl of None \<Rightarrow> BASE_URL (config d) | Some x \<Rightarrow> x) =
      Inr encoded"
    using encodeURIComponent_well_formed by blast
  with h d' have "dev_ensureAuthenticatedUser redirectUrl d v =
      (Inl unauthorizedError, d',
       v'\<lparr>navigations := navigations v' @ [LOGIN_URL (config d) @ ''?next='' @ encoded]\<rparr>)"
    by (simp add: dev_ensureAuthenticatedUser_def redirectToLogin_def location_assign_def
        getLoginRedirectUrl_def)
  with encoded show "\<exists>encoded.
         encodeURIComponent (case redirectUrl of None \<Rightarrow> BASE_URL (config d) | Some x \<Rightarrow> x) =
           Inr encoded \<and>
         dev_ensureAuthenticatedUser redirectUrl d v =
           (Inl unauthorizedError, d',
            v'\<lparr>navigations := navigations v' @
              [LOGIN_URL (config d) @ ''?next='' @ encoded]\<rparr>)"
    by blast
  show "isRedirecting unauthorizedError"
    by (simp add: unauthorizedError_def)
qed

text \<open>
  Both services of the samples, anonymous, on a page opened directly, asked to come back
  to \<^verbatim>\<open>http://localhost:8080/a b\<close>: one navigation, to the login page.
\<close>

theorem ensureAuthenticatedUser_redirects_witness:
  "(jwt_fetchAuthenticatedUser no_token JUndefined sample_jwt sample_jwt_world =
      (Inr None, sample_jwt, sample_jwt_world) \<and>
    getAuthenticatedUser sample_jwt = None \<and>
    \<not> isRedirectFromLoginPage sample_jwt sample_jwt_world \<and>
    well_formed (utf16_of ''http://localhost:8080/a b'')) \<and>
   jwt_ensureAuthenticatedUser no_token (Some (utf16_of ''http://localhost:8080/a b''))
       sample_jwt sample_jwt_world =
     (Inl unauthorizedError, sample_jwt,
      sample_jwt_world\<lparr>navigations :=
        [''http://localhost:18000/login?next=http%3A%2F%2Flocalhost%3A8080%2Fa%20b'']\<rparr>) \<and>
   (dev_fetchAuthenticatedUser sample_dev sample_dev_world =
      (Inr None, sample_dev, sample_dev_world) \<and>
    getAuthenticatedUser sample_dev = None \<and>
    \<not> isRedirectFromLoginPage sample_dev sample_dev_world) \<and>
   dev_ensureAuthenticatedUser (Some (utf16_of ''http://localhost:8080/a b'')) sample_dev
       sample_dev_world =
     (Inl unauthorizedError, sample_dev,
      sample_dev_world\<lparr>navigations :=
        [''http://localhost:18000/login?next=http%3A%2F%2Flocalhost%3A8080%2Fa%20b'']\<rparr>) \<and>
   isRedirecting unauthorizedError"
proof -
  have url: "encodeURIComponent (utf16_of ''http://localhost:8080/a b'') =
      Inr ''http%3A%2F%2Flocalhost%3A8080%2Fa%20b''"
    by (simp add: enc_defs)
  then have wf: "well_formed (utf16_of ''http://localhost:8080/a b'')"
    using encodeURIComponent_well_formed by blast
  have jwt: "jwt_fetchAuthenticatedUser no_token JUndefined sample_jwt sample_jwt_world =
      (Inr None, sample_jwt, sample_jwt_world) \<and>
    getAuthenticatedUser sample_jwt = None \<and>
    \<not> isRedirectFromLoginPage sample_jwt sample_jwt_world"
    by (simp add: sample_jwt_eq sample_jwt_world_eq jwt_fetchAuthenticatedUser_def no_token_def
        setAuthenticatedUser_def getAuthenticatedUser_def isRedirectFromLoginPage_def)
  have dev: "dev_fetchAuthenticatedUser sample_dev sample_dev_world =
      (Inr None, sample_dev, sample_dev_world) \<and>
    getAuthenticatedUser sample_dev = None \<and>
    \<not> isRedirectFromLoginPage sample_dev sample_dev_world"
    by (simp add: sample_dev_eq sample_dev_world_eq dev_fetchAuthenticatedUser_def
        getAuthenticatedUser_def isRedirectFromLoginPage_def)
  have cfg: "LOGIN_URL (config sample_jwt) = ''http://localhost:18000/login''"
    "LOGIN_URL (config sample_dev) = ''http://localhost:18000/login''"
    and nav: "navigations sample_jwt_world = []" "navigations sample_dev_world = []"
    by (simp_all add: sample_jwt_eq sample_dev_eq sample_jwt_world_eq sample_dev_world_eq
        sample_config_def)
  from jwt dev wf url cfg nav
    ensureAuthenticatedUser_redirects
      [where s = sample_jwt and w = sample_jwt_world and getJwtToken = no_token
         and u = None and s' = sample_jwt and w' = sample_jwt_world
         and redirectUrl = "Some (utf16_of ''http://localhost:8080/a b'')"
         and d = sample_dev and v = sample_dev_world and d' = sample_dev
         and v' = sample_dev_world]
  show ?thesis by auto
qed

text \<open>
  Without the condition on the redirect URL the statement fails. Asked to come back to
  a URL that ends in a lone surrogate, \<^verbatim>\<open>encodeURIComponent\<close> throws before
  \<^verbatim>\<open>location.assign\<close> is called: the service does not navigate, and rejects with an
  error whose \<^verbatim>\<open>isRedirecting\<close> flag is not set.
\<close>

theorem ensureAuthenticatedUser_redirects_counterexample:
  "jwt_fetchAuthenticatedUser no_token JUndefined sample_jwt sample_jwt_world =
     (Inr None, sample_jwt, sample_jwt_world) \<and>
   getAuthenticatedUser sample_jwt = None \<and>
   \<not> isRedirectFromLoginPage sample_jwt sample_jwt_world \<and>
   jwt_ensureAuthenticatedUser no_token (Some lone_surrogate_url) sample_jwt sample_jwt_world =
     (Inl URIError, sample_jwt, sample_jwt_world) \<and>
   navigations sample_jwt_world = [] \<and>
   \<not> isRedirecting URIError \<and>
   dev_ensureAuthenticatedUser (Some lone_surrogate_url) sample_dev sample_dev_world =
     (Inl URIError, sample_dev, sample_dev_world)"
proof -
  have "encodeURIComponent lone_surrogate_url = Inl URIError"
    by (simp add: lone_surrogate_url_def enc_defs)
  then show ?thesis
    by (simp add: sample_jwt_eq sample_jwt_world_eq sample_dev_eq sample_dev_world_eq
        jwt_ensureAuthenticatedUser_def jwt_fetchAuthenticatedUser_def no_token_def
        dev_ensureAuthenticatedUser_def dev_fetchAuthenticatedUser_def
        setAuthenticatedUser_def getAuthenticatedUser_def isRedirectFromLoginPage_def
        redirectToLogin_def getLoginRedirectUrl_def URIError_def new_Error_def)
qed

section \<open>Objects as maps\<close>

lemma distinct_map_of_rev: "distinct (map fst xs) \<Longrightarrow> map_of (rev xs) = map_of xs"
proof (induction xs)
  case Nil
  then show ?case by simp
next
  case (Cons x xs)
  then have "fst x \<notin> dom (map_of xs)"
    by (simp add: dom_map_of_conv_image_fst)
  then have "map_of [x] ++ map_of xs = map_of xs ++ map_of [x]"
    by (intro map_add_comm) auto
  with Cons show ?case
    by (cases x) (simp add: map_add_upd_left)
qed

lemma distinct_assign_entries:
  "distinct (map fst target) \<Longrightarrow> distinct (map fst (assign_entries target es))"
  unfolding assign_entries_def set_prop_def
  by (induction es arbitrary: target) (simp_all add: distinct_update)

lemma map_of_assign_entries:
  "map_of (assign_entries target es) = map_of target ++ map_of (rev es)"
proof (induction es arbitrary: target)
  case Nil
  then show ?case by (simp add: assign_entries_def)
next
  case (Cons e es)
  obtain k v where e: "e = (k, v)" by (cases e)
  have "assign_entries target (e # es) = assign_entries (AList.update k v target) es"
    by (simp add: assign_entries_def set_prop_def e)
  then have "map_of (assign_entries target (e # es)) =
      map_of (AList.update k v target) ++ map_of (rev es)"
    by (simp only: Cons.IH)
  also have "\<dots> = (map_of target)(k \<mapsto> v) ++ map_of (rev es)"
    by (simp only: update_conv')
  also have "\<dots> = map_of target ++ map_of (rev (e # es))"
    by (rule ext) (simp add: e map_add_def split: option.splits)
  finally show ?case .
qed

lemma own_props_Nil: "own_props [] = Map.empty"
  by (simp add: own_props_def)

lemma own_props_assign_entries:
  assumes "distinct (map fst target)"
  shows "own_props (assign_entries target es) = own_props target ++ own_props es"
proof -
  have "own_props (assign_entries target es) = map_of (assign_entries target es)"
    unfolding own_props_def
    by (rule distinct_map_of_rev) (rule distinct_assign_entries [OF assms])
  also have "\<dots> = map_of target ++ map_of (rev es)"
    by (rule map_of_assign_entries)
  also have "map_of target = own_props target"
    unfolding own_props_def by (rule distinct_map_of_rev [symmetric]) (rule assms)
  finally show ?thesis
    by (simp add: own_props_def)
qed

lemma own_props_spread2:
  "own_props (spread2 a b) = own_props (own_entries a) ++ own_props (own_entries b)"
proof -
  have "distinct (map fst (assign_entries [] (own_entries a)))"
    by (rule distinct_assign_entries) simp
  then show ?thesis
    by (simp add: spread2_def own_props_assign_entries own_props_Nil)
qed

lemma own_props_camelCaseObject:
  "own_props (own_entries (camelCaseObject cc (JObj kvs))) =
     own_props (map (\<lambda>kv. (cc (fst kv), camelCaseObject cc (snd kv))) kvs)"
  by (simp add: own_props_assign_entries own_props_Nil)

lemma dom_own_props: "dom (own_props kvs) = fst ` set kvs"
  by (simp add: own_props_def dom_map_of_conv_image_fst)


section \<open>hydrateAuthenticatedUser\<close>

lemma own_props_converted_present:
  assumes "kv \<in> set kvs"
  shows "\<exists>kv'\<in>set kvs. f (fst kv') = f (fst kv) \<and>
           own_props (map (\<lambda>kv. (f (fst kv), g (snd kv))) kvs) (f (fst kv)) = Some (g (snd kv'))"
proof -
  let ?l = "map (\<lambda>kv. (f (fst kv), g (snd kv))) kvs"
  from assms have "f (fst kv) \<in> fst ` set (rev ?l)"
    by force
  then have "map_of (rev ?l) (f (fst kv)) \<noteq> None"
    by (simp only: map_of_eq_None_iff) simp
  then obtain y where y: "map_of (rev ?l) (f (fst kv)) = Some y"
    by blast
  then have "(f (fst kv), y) \<in> set (rev ?l)"
    by (rule map_of_SomeD)
  then obtain kv' where "kv' \<in> set kvs" "f (fst kv') = f (fst kv)" "y = g (snd kv')"
    by auto
  with y show ?thesis
    by (auto simp: own_props_def)
qed

lemma own_props_converted_injective:
  assumes "kv \<in> set kvs" and "inj_on f (fst ` set kvs)" and "distinct (map fst kvs)"
  shows "own_props (map (\<lambda>kv. (f (fst kv), g (snd kv))) kvs) (f (fst kv)) = Some (g (snd kv))"
proof -
  let ?l = "map (\<lambda>kv. (f (fst kv), g (snd kv))) kvs"
  have "map fst ?l = map f (map fst kvs)"
    by simp
  with assms(2,3) have d: "distinct (map fst ?l)"
    by (simp only: distinct_map) simp
  from assms(1) have "(f (fst kv), g (snd kv)) \<in> set ?l"
    by force
  with d have "map_of ?l (f (fst kv)) = Some (g (snd kv))"
    by simp
  with d show ?thesis
    by (simp only: own_props_def distinct_map_of_rev)
qed

lemma own_props_last_wins:
  assumes "f (fst kv) \<notin> f ` fst ` set after"
  shows "own_props (map (\<lambda>kv. (f (fst kv), g (snd kv))) (before @ kv # after)) (f (fst kv)) =
           Some (g (snd kv))"
proof -
  let ?h = "\<lambda>kv. (f (fst kv), g (snd kv))"
  from assms have "f (fst kv) \<notin> fst ` set (rev (map ?h after))"
    by force
  then have "map_of (rev (map ?h after)) (f (fst kv)) = None"
    by (simp only: map_of_eq_None_iff not_False_eq_True)
  then show ?thesis
    by (simp add: own_props_def map_add_def)
qed

text \<open>
  C3, as amended. For every authenticated session and every profile response,
  \<^verbatim>\<open>hydrateAuthenticatedUser\<close> of the JWT service asks for the profile of the user
  once and sets the user of the session to the merge of the existing user with the
  profile fields under their camelCase names: a field of the existing user that the
  converted profile does not have is kept unchanged; where both have a field, the value
  of the profile wins; a field of a profile object is present under its converted name,
  with its converted value, unless a later field of the response has the same converted
  name, so that every field is present when the conversion maps different names of the
  profile to different names.
\<close>

theorem hydrateAuthenticatedUser_merges:
  assumes "getAuthenticatedUser s = Some user"
    and "get (authenticatedHttpClient s)
           (LMS_BASE_URL (config s) @ ''/api/user/v1/accounts/'' @
            js_toString (get_prop user ''username'')) = Inr response"
  shows "\<exists>merged.
     jwt_hydrateAuthenticatedUser camelCase get s w =
       (Inr (), s\<lparr>authenticatedUser := Some merged\<rparr>,
        w\<lparr>requests := requests w @
          [(authenticatedHttpClient s,
            LMS_BASE_URL (config s) @ ''/api/user/v1/accounts/'' @
            js_toString (get_prop user ''username''))]\<rparr>) \<and>
     getAuthenticatedUser (fst (snd (jwt_hydrateAuthenticatedUser camelCase get s w))) =
       Some merged \<and>
     (\<forall>k. own_props (own_entries (camelCaseObject camelCase (data response))) k = None \<longrightarrow>
          own_props merged k = own_props user k) \<and>
     (\<forall>k v. own_props (own_entries (camelCaseObject camelCase (data response))) k = Some v \<longrightarrow>
          own_props merged k = Some v) \<and>
     (\<forall>profile. data response = JObj profile \<longrightarrow>
        (\<forall>before kv after.
           profile = before @ kv # after \<and>
           camelCase (fst kv) \<notin> camelCase ` fst ` set after \<longrightarrow>
           own_props merged (camelCase (fst kv)) = Some (camelCaseObject camelCase (snd kv))) \<and>
        (inj_on camelCase (fst ` set profile) \<and> distinct (map fst profile) \<longrightarrow>
           (\<forall>kv\<in>set profile.
              own_props merged (camelCase (fst kv)) = Some (camelCaseObject camelCase (snd kv)))))"
proof -
  let ?camel = "camelCaseObject camelCase (data response)"
  let ?merged = "spread2 (JObj user) ?camel"
  have run: "jwt_hydrateAuthenticatedUser camelCase get s w =
       (Inr (), s\<lparr>authenticatedUser := Some ?merged\<rparr>,
        w\<lparr>requests := requests w @
          [(authenticatedHttpClient s,
            LMS_BASE_URL (config s) @ ''/api/user/v1/accounts/'' @
            js_toString (get_prop user ''username''))]\<rparr>)"
    using assms by (simp add: jwt_hydrateAuthenticatedUser_def setAuthenticatedUser_def Let_def)
  then have now: "getAuthenticatedUser
      (fst (snd (jwt_hydrateAuthenticatedUser camelCase get s w))) = Some ?merged"
    by (simp add: getAuthenticatedUser_def)
  have props: "own_props ?merged = own_props user ++ own_props (own_entries ?camel)"
    by (simp add: own_props_spread2)
  have kept: "\<forall>k. own_props (own_entries ?camel) k = None \<longrightarrow> own_props ?merged k = own_props user k"
    by (simp add: props map_add_def)
  have wins: "\<forall>k v. own_props (own_entries ?camel) k = Some v \<longrightarrow> own_props ?merged k = Some v"
    by (simp add: props map_add_def)
  have object: "\<forall>profile. data response = JObj profile \<longrightarrow>
        (\<forall>before kv after.
           profile = before @ kv # after \<and>
           camelCase (fst kv) \<notin> camelCase ` fst ` set after \<longrightarrow>
           own_props ?merged (camelCase (fst kv)) = Some (camelCaseObject camelCase (snd kv))) \<and>
        (inj_on camelCase (fst ` set profile) \<and> distinct (map fst profile) \<longrightarrow>
           (\<forall>kv\<in>set profile.
              own_props ?merged (camelCase (fst kv)) = Some (camelCaseObject camelCase (snd kv))))"
  proof (intro allI impI conjI ballI)
    fix profile before kv after
    assume d: "data response = JObj profile"
      and l: "profile = before @ kv # after \<and>
        camelCase (fst kv) \<notin> camelCase ` fst ` set after"
    have "own_props (own_entries ?camel) =
        own_props (map (\<lambda>kv. (camelCase (fst kv), camelCaseObject camelCase (snd kv))) profile)"
      by (simp only: d own_props_camelCaseObject)
    with l own_props_last_wins [of camelCase kv after "camelCaseObject camelCase" before]
    have "own_props (own_entries ?camel) (camelCase (fst kv)) =
        Some (camelCaseObject camelCase (snd kv))"
      by simp
    with wins show "own_props ?merged (camelCase (fst kv)) =
        Some (camelCaseObject camelCase (snd kv))"
      by blast
  next
    fix profile kv
    assume d: "data response = JObj profile" and kv: "kv \<in> set profile"
      and i: "inj_on camelCase (fst ` set profile) \<and> distinct (map fst profile)"
    have "own_props (own_entries ?camel) =
        own_props (map (\<lambda>kv. (camelCase (fst kv), camelCaseObject camelCase (snd kv))) profile)"
      by (simp only: d own_props_camelCaseObject)
    with own_props_converted_injective [OF kv, of camelCase "camelCaseObject camelCase"] i
    have "own_props (own_entries ?camel) (camelCase (fst kv)) = Some (camelCaseObject camelCase (snd kv))"
      by simp
    with wins show "own_props ?merged (camelCase (fst kv)) = Some (camelCaseObject camelCase (snd kv))"
      by blast
  qed
  from run now kept wins object show ?thesis
    by blast
qed

text \<open>
  The example of the specification: the user \<^verbatim>\<open>{userId: "1", username: "a", roles: ["x"]}\<close>
  and the profile response \<^verbatim>\<open>{"full_name": "A B"}\<close>.
\<close>

theorem hydrateAuthenticatedUser_merges_witness:
  "getAuthenticatedUser authenticated_jwt = Some sample_user \<and>
   sample_profile (authenticatedHttpClient authenticated_jwt)
     ''http://localhost:18000/api/user/v1/accounts/a'' =
     Inr \<lparr>data = JObj [(''full_name'', JStr ''A B'')]\<rparr> \<and>
   (\<exists>merged.
      jwt_hydrateAuthenticatedUser snake_to_camel sample_profile authenticated_jwt
          sample_jwt_world =
        (Inr (), authenticated_jwt\<lparr>authenticatedUser := Some merged\<rparr>,
         sample_jwt_world\<lparr>requests :=
           [(Derived 0 (Axios 0), ''http://localhost:18000/api/user/v1/accounts/a'')]\<rparr>) \<and>
      getAuthenticatedUser
        (fst (snd (jwt_hydrateAuthenticatedUser snake_to_camel sample_profile authenticated_jwt
           sample_jwt_world))) = Some merged \<and>
      own_props merged ''userId'' = Some (JStr ''1'') \<and>
      own_props merged ''username'' = Some (JStr ''a'') \<and>
      own_props merged ''roles'' = Some (JArr [JStr ''x'']) \<and>
      own_props merged ''fullName'' = Some (JStr ''A B''))"
proof -
  let ?url = "''http://localhost:18000/api/user/v1/accounts/a''"
  let ?response = "\<lparr>data = JObj [(''full_name'', JStr ''A B'')]\<rparr>"
  have user: "getAuthenticatedUser authenticated_jwt = Some sample_user"
    by (simp add: authenticated_jwt_def setAuthenticatedUser_def getAuthenticatedUser_def)
  have url: "LMS_BASE_URL (config authenticated_jwt) @ ''/api/user/v1/accounts/'' @
      js_toString (get_prop sample_user ''username'') = ?url"
    by (simp add: authenticated_jwt_def setAuthenticatedUser_def sample_jwt_eq sample_config_def
        sample_user_def get_prop_def own_props_def)
  have client: "authenticatedHttpClient authenticated_jwt = Derived 0 (Axios 0)"
    by (simp add: authenticated_jwt_def setAuthenticatedUser_def sample_jwt_eq)
  have response: "sample_profile (authenticatedHttpClient authenticated_jwt) ?url = Inr ?response"
    by (simp add: sample_profile_def)
  have requests: "requests sample_jwt_world = []"
    by (simp add: sample_jwt_world_eq)
  have camel: "own_entries (camelCaseObject snake_to_camel (data ?response)) =
      [(''fullName'', JStr ''A B'')]"
    by (simp add: assign_entries_def set_prop_def to_upper_def)
  have absent: "own_props [(''fullName'', JStr ''A B'')] ''userId'' = None"
    "own_props [(''fullName'', JStr ''A B'')] ''username'' = None"
    "own_props [(''fullName'', JStr ''A B'')] ''roles'' = None"
    by (simp_all add: own_props_def)
  have old: "own_props sample_user ''userId'' = Some (JStr ''1'')"
    "own_props sample_user ''username'' = Some (JStr ''a'')"
    "own_props sample_user ''roles'' = Some (JArr [JStr ''x''])"
    by (simp_all add: own_props_def sample_user_def)
  from hydrateAuthenticatedUser_merges
    [where s = authenticated_jwt and user = sample_user and get = sample_profile
       and response = ?response and camelCase = snake_to_camel and w = sample_jwt_world]
    user response url
  obtain merged where
    run: "jwt_hydrateAuthenticatedUser snake_to_camel sample_profile authenticated_jwt
          sample_jwt_world =
        (Inr (), authenticated_jwt\<lparr>authenticatedUser := Some merged\<rparr>,
         sample_jwt_world\<lparr>requests := requests sample_jwt_world @
           [(authenticatedHttpClient authenticated_jwt, ?url)]\<rparr>)"
    and now: "getAuthenticatedUser
        (fst (snd (jwt_hydrateAuthenticatedUser snake_to_camel sample_profile authenticated_jwt
           sample_jwt_world))) = Some merged"
    and kept: "\<forall>k. own_props (own_entries (camelCaseObject snake_to_camel (data ?response))) k = None
          \<longrightarrow> own_props merged k = own_props sample_user k"
    and last: "\<forall>profile. data ?response = JObj profile \<longrightarrow>
        (\<forall>before kv after.
           profile = before @ kv # after \<and>
           snake_to_camel (fst kv) \<notin> snake_to_camel ` fst ` set after \<longrightarrow>
           own_props merged (snake_to_camel (fst kv)) =
             Some (camelCaseObject snake_to_camel (snd kv)))"
    and inj: "\<forall>profile. data ?response = JObj profile \<longrightarrow>
        (inj_on snake_to_camel (fst ` set profile) \<and> distinct (map fst profile) \<longrightarrow>
           (\<forall>kv\<in>set profile.
              own_props merged (snake_to_camel (fst kv)) =
                Some (camelCaseObject snake_to_camel (snd kv))))"
    by auto
  from kept absent old have "own_props merged ''userId'' = Some (JStr ''1'')"
    "own_props merged ''username'' = Some (JStr ''a'')"
    "own_props merged ''roles'' = Some (JArr [JStr ''x''])"
    by (simp_all only: camel)
  moreover from inj have "own_props merged (snake_to_camel ''full_name'') =
      Some (camelCaseObject snake_to_camel (JStr ''A B''))"
    by simp
  then have full: "own_props merged ''fullName'' = Some (JStr ''A B'')"
    by (simp add: to_upper_def)
  moreover from last [rule_format, of "[(''full_name'', JStr ''A B'')]" "[]"
      "(''full_name'', JStr ''A B'')" "[]"]
  have "own_props merged (snake_to_camel ''full_name'') =
      Some (camelCaseObject snake_to_camel (JStr ''A B''))"
    by simp
  ultimately show ?thesis
    using user response run now client requests by auto
qed

text \<open>
  Not every profile field is present. Of the two fields \<^verbatim>\<open>full_name\<close> and
  \<^verbatim>\<open>fullName\<close> of a profile response, which have the same converted name, the user
  of the session receives the value of the later one only.
\<close>

theorem hydrateAuthenticatedUser_merges_counterexample:
  "getAuthenticatedUser authenticated_jwt = Some sample_user \<and>
   colliding_profile (authenticatedHttpClient authenticated_jwt)
     ''http://localhost:18000/api/user/v1/accounts/a'' =
     Inr \<lparr>data = JObj [(''full_name'', JStr ''A''), (''fullName'', JStr ''B'')]\<rparr> \<and>
   snake_to_camel ''full_name'' = ''fullName'' \<and>
   snake_to_camel ''fullName'' = ''fullName'' \<and>
   getAuthenticatedUser
     (fst (snd (jwt_hydrateAuthenticatedUser snake_to_camel colliding_profile authenticated_jwt
        sample_jwt_world))) =
     Some [(''userId'', JStr ''1''), (''username'', JStr ''a''), (''roles'', JArr [JStr ''x'']),
           (''fullName'', JStr ''B'')] \<and>
   own_props
     [(''userId'', JStr ''1''), (''username'', JStr ''a''), (''roles'', JArr [JStr ''x'']),
      (''fullName'', JStr ''B'')] (snake_to_camel ''full_name'') \<noteq> Some (JStr ''A'')"
  by (simp add: jwt_hydrateAuthenticatedUser_def authenticated_jwt_def setAuthenticatedUser_def
      getAuthenticatedUser_def sample_jwt_eq sample_jwt_world_eq sample_config_def sample_user_def
      colliding_profile_def get_prop_def own_props_def spread2_def assign_entries_def set_prop_def
      to_upper_def)

text \<open>The object that the example ends with, entry by entry.\<close>

lemma hydrateAuthenticatedUser_example:
  "jwt_hydrateAuthenticatedUser snake_to_camel sample_profile authenticated_jwt sample_jwt_world =
     (Inr (),
      authenticated_jwt\<lparr>authenticatedUser :=
        Some [(''userId'', JStr ''1''), (''username'', JStr ''a''), (''roles'', JArr [JStr ''x'']),
              (''fullName'', JStr ''A B'')]\<rparr>,
      sample_jwt_world\<lparr>requests :=
        [(Derived 0 (Axios 0), ''http://localhost:18000/api/user/v1/accounts/a'')]\<rparr>)"
  by (simp add: jwt_hydrateAuthenticatedUser_def authenticated_jwt_def setAuthenticatedUser_def
      getAuthenticatedUser_def sample_jwt_eq sample_jwt_world_eq sample_config_def sample_user_def
      sample_profile_def get_prop_def own_props_def spread2_def assign_entries_def set_prop_def
      to_upper_def)

text \<open>
  C9. For every anonymous session, \<^verbatim>\<open>hydrateAuthenticatedUser\<close> of the JWT service
  resolves without a network call (no request is recorded) and leaves the session and
  everything else unchanged.
\<close>

theorem hydrateAuthenticatedUser_anonymous:
  "getAuthenticatedUser s = None \<Longrightarrow>
     jwt_hydrateAuthenticatedUser camelCase get s w = (Inr (), s, w) \<and>
     requests (snd (snd (jwt_hydrateAuthenticatedUser camelCase get s w))) = requests w"
  by (simp add: jwt_hydrateAuthenticatedUser_def)

text \<open>The JWT service of the samples is anonymous: nothing is requested.\<close>

theorem hydrateAuthenticatedUser_anonymous_witness:
  "getAuthenticatedUser sample_jwt = None \<and>
   jwt_hydrateAuthenticatedUser snake_to_camel sample_profile sample_jwt sample_jwt_world =
     (Inr (), sample_jwt, sample_jwt_world) \<and>
   requests (snd (snd (jwt_hydrateAuthenticatedUser snake_to_camel sample_profile sample_jwt
     sample_jwt_world))) = []"
proof -
  have anonymous: "getAuthenticatedUser sample_jwt = None"
    by (simp add: getAuthenticatedUser_def sample_jwt_eq)
  have "requests sample_jwt_world = []"
    by (simp add: sample_jwt_world_eq)
  with anonymous
    hydrateAuthenticatedUser_anonymous
      [OF anonymous, of snake_to_camel sample_profile sample_jwt_world]
  show ?thesis by simp
qed


section \<open>The development service\<close>

lemma mock_dev_eq:
  "mock_dev =
     \<lparr>config = mock_config,
      authenticatedHttpClient = Derived 0 (Axios 0),
      httpClient = Derived 1 (Axios 1),
      authenticatedUser = Some sample_user,
      hydratedAuthenticatedUser = hydrated_sample_user\<rparr>"
  by (simp add: mock_dev_def mock_config_def sample_defs store_defs)

text \<open>
  C8, on the code. The development service is built from a configuration with a mock
  user and a mock hydrated user. \<^verbatim>\<open>fetchAuthenticatedUser\<close> returns the mock user.
  \<^verbatim>\<open>hydrateAuthenticatedUser\<close> returns the same user and leaves the session as it
  was: the mock hydrated user, which the constructor stored, does not become the user of
  the session.
\<close>

theorem dev_hydrateAuthenticatedUser_keeps_user:
  "hydratedAuthenticatedUser mock_dev = hydrated_sample_user \<and>
   dev_fetchAuthenticatedUser mock_dev mock_dev_world =
     (Inr (Some sample_user), mock_dev, mock_dev_world) \<and>
   dev_hydrateAuthenticatedUser mock_dev mock_dev_world =
     (Inr (Some sample_user), mock_dev, mock_dev_world) \<and>
   getAuthenticatedUser mock_dev = Some sample_user \<and>
   getAuthenticatedUser mock_dev \<noteq> Some hydrated_sample_user"
  by (simp add: mock_dev_eq dev_fetchAuthenticatedUser_def dev_hydrateAuthenticatedUser_def
      getAuthenticatedUser_def hydrated_sample_user_def)

section \<open>applyMiddleware\<close>

lemma apply_to_clients_frame:
  "logged (snd (apply_to_clients i f cs w)) = logged w \<and>
   navigations (snd (apply_to_clients i f cs w)) = navigations w \<and>
   requests (snd (apply_to_clients i f cs w)) = requests w \<and>
   referrer (snd (apply_to_clients i f cs w)) = referrer w \<and>
   console (snd (apply_to_clients i f cs w)) = console w \<and>
   created (snd (apply_to_clients i f cs w)) = created w"
  by (induction i f cs w rule: apply_to_clients.induct)
    (auto simp: Let_def split: prod.splits option.splits)

lemma apply_each_frame:
  "logged (snd (apply_each i fs cs w)) = logged w \<and>
   navigations (snd (apply_each i fs cs w)) = navigations w \<and>
   requests (snd (apply_each i fs cs w)) = requests w \<and>
   referrer (snd (apply_each i fs cs w)) = referrer w \<and>
   console (snd (apply_each i fs cs w)) = console w \<and>
   created (snd (apply_each i fs cs w)) = created w"
proof (induction fs arbitrary: i w)
  case Nil
  then show ?case by simp
next
  case (Cons f fs)
  obtain r w1 where r: "apply_to_clients i f cs w = (r, w1)"
    by force
  with apply_to_clients_frame [of i f cs w] Cons.IH [of "Suc i" w1]
  show ?case
    by (cases r) auto
qed

lemma apply_to_clients_returns:
  assumes "\<forall>c st. fst (f c st) = None"
  shows "fst (apply_to_clients i f cs w) = None \<and>
         applied (snd (apply_to_clients i f cs w)) = applied w @ map (Pair i) (non_null cs)"
  using assms
proof (induction i f cs w rule: apply_to_clients.induct)
  case (1 i f w)
  then show ?case by simp
next
  case (2 i f cs w)
  then show ?case by simp
next
  case (3 i f c cs w)
  let ?w = "w\<lparr>applied := applied w @ [(i, c)]\<rparr>"
  obtain r st where call: "f c (instances ?w) = (r, st)"
    by force
  with "3.prems" have r: "r = None"
    by (metis fst_conv)
  from "3.IH" [OF refl call [symmetric, unfolded r] refl] "3.prems" call r
  show ?case
    by (simp add: Let_def)
qed

lemma apply_each_returns:
  assumes "\<forall>f\<in>set fs. \<forall>c st. fst (f c st) = None"
  shows "fst (apply_each i fs cs w) = None \<and>
         applied (snd (apply_each i fs cs w)) =
           applied w @ List.product [i ..< i + length fs] (non_null cs)"
  using assms
proof (induction fs arbitrary: i w)
  case Nil
  then show ?case by simp
next
  case (Cons f fs)
  obtain r w1 where r: "apply_to_clients i f cs w = (r, w1)"
    by force
  from Cons.prems have f: "\<forall>c st. fst (f c st) = None"
    by simp
  from apply_to_clients_returns [OF f, of i cs w] r
  have r1: "r = None" and a1: "applied w1 = applied w @ map (Pair i) (non_null cs)"
    by simp_all
  from Cons.prems have "\<forall>f\<in>set fs. \<forall>c st. fst (f c st) = None"
    by simp
  from Cons.IH [OF this, of "Suc i" w1]
  have "fst (apply_each (Suc i) fs cs w1) = None"
    and "applied (snd (apply_each (Suc i) fs cs w1)) =
      applied w1 @ List.product [Suc i ..< Suc i + length fs] (non_null cs)"
    by simp_all
  moreover have "[i ..< i + length (f # fs)] = i # [Suc i ..< Suc i + length fs]"
    by (simp add: upt_conv_Cons del: upt_Suc)
  ultimately show ?case
    using r r1 a1 by (simp del: upt_Suc)
qed


section \<open>The cache-backed clients\<close>

lemma jwt_constructor_eq:
  "jwt_constructor options w0 =
     (\<lparr>config = options_config options,
       authenticatedHttpClient = Derived (created w0) (Axios (length (instances w0))),
       httpClient = Axios (Suc (length (instances w0))),
       authenticatedUser = None,
       cachedAuthenticatedHttpClient = None,
       cachedHttpClient = None,
       middleware = None\<rparr>,
      w0\<lparr>instances := instances w0 @
           [\<lparr>withCredentials = True,
             request_interceptors = [CsrfTokenProviderInterceptor, JwtTokenProviderInterceptor],
             response_interceptors = [ProcessAxiosRequestErrorInterceptor]\<rparr>,
            \<lparr>withCredentials = False, request_interceptors = [], response_interceptors = []\<rparr>],
         created := Suc (created w0)\<rparr>)"
  by (simp add: jwt_constructor_def addAuthenticationToHttpClient_def store_defs)

lemma jwt_do_frame:
  assumes "jwt_do c (s, w) = (s', w')"
  shows "authenticatedHttpClient s' = authenticatedHttpClient s \<and>
         httpClient s' = httpClient s \<and>
         cachedAuthenticatedHttpClient s' = cachedAuthenticatedHttpClient s \<and>
         cachedHttpClient s' = cachedHttpClient s \<and>
         middleware s' = middleware s \<and>
         config s' = config s \<and>
         instances w' = instances w \<and> created w' = created w \<and> applied w' = applied w"
  using assms
  by (cases c)
    (auto simp: jwt_fetchAuthenticatedUser_def jwt_ensureAuthenticatedUser_def
      jwt_hydrateAuthenticatedUser_def setAuthenticatedUser_def getAuthenticatedUser_def
      logFrontendAuthError_def redirectToLogin_def redirectToLogout_def location_assign_def
      getLoginRedirectUrl_def getLogoutRedirectUrl_def
      Let_def split: sum.splits option.splits if_splits)

lemma jwt_run_frame:
  assumes "jwt_run calls (s, w) = (s', w')"
  shows "authenticatedHttpClient s' = authenticatedHttpClient s \<and>
         httpClient s' = httpClient s \<and>
         cachedAuthenticatedHttpClient s' = cachedAuthenticatedHttpClient s \<and>
         cachedHttpClient s' = cachedHttpClient s \<and>
         middleware s' = middleware s \<and>
         config s' = config s \<and>
         instances w' = instances w \<and> created w' = created w \<and> applied w' = applied w"
  using assms
proof (induction calls arbitrary: s w)
  case Nil
  then show ?case by (simp add: jwt_run_def)
next
  case (Cons c calls)
  obtain s1 w1 where step: "jwt_do c (s, w) = (s1, w1)"
    by force
  with Cons.prems have "jwt_run calls (s1, w1) = (s', w')"
    by (simp add: jwt_run_def)
  from Cons.IH [OF this] jwt_do_frame [OF step] show ?case
    by simp
qed

text \<open>
  C10. For every freshly constructed JWT service, and whatever is called on it while the
  cache promise is pending: the getters return \<^verbatim>\<open>null\<close> for a truthy
  \<^verbatim>\<open>useCache\<close>, and for any other \<^verbatim>\<open>useCache\<close> the two direct clients, which
  are different objects and usable at once: each names an axios instance of the store,
  the authenticated one with credentials and the authentication interceptors, the other
  one plain.
\<close>

theorem cached_clients_null_until_settled:
  "case jwt_run calls (jwt_constructor options w0) of (s, w) \<Rightarrow>
     (\<forall>useCache. truthy useCache \<longrightarrow>
        jwt_getAuthenticatedHttpClient useCache s = None \<and>
        jwt_getHttpClient useCache s = None) \<and>
     (\<forall>useCache. \<not> truthy useCache \<longrightarrow>
        jwt_getAuthenticatedHttpClient useCache s = Some (authenticatedHttpClient s) \<and>
        jwt_getHttpClient useCache s = Some (httpClient s)) \<and>
     authenticatedHttpClient s \<noteq> httpClient s \<and>
     instance_of (authenticatedHttpClient s) < length (instances w) \<and>
     instance_of (httpClient s) < length (instances w) \<and>
     instances w ! instance_of (authenticatedHttpClient s) =
       \<lparr>withCredentials = True,
        request_interceptors = [CsrfTokenProviderInterceptor, JwtTokenProviderInterceptor],
        response_interceptors = [ProcessAxiosRequestErrorInterceptor]\<rparr> \<and>
     instances w ! instance_of (httpClient s) =
       \<lparr>withCredentials = False, request_interceptors = [], response_interceptors = []\<rparr>"
proof -
  obtain s0 w1 where c: "jwt_constructor options w0 = (s0, w1)"
    by force
  obtain s w where r: "jwt_run calls (s0, w1) = (s, w)"
    by force
  from c [unfolded jwt_constructor_eq] jwt_run_frame [OF r]
  have "cachedAuthenticatedHttpClient s = None" "cachedHttpClient s = None"
    "authenticatedHttpClient s = Derived (created w0) (Axios (length (instances w0)))"
    "httpClient s = Axios (Suc (length (instances w0)))"
    "instances w = instances w0 @
           [\<lparr>withCredentials = True,
             request_interceptors = [CsrfTokenProviderInterceptor, JwtTokenProviderInterceptor],
             response_interceptors = [ProcessAxiosRequestErrorInterceptor]\<rparr>,
            \<lparr>withCredentials = False, request_interceptors = [], response_interceptors = []\<rparr>]"
    by auto
  then show ?thesis
    by (simp add: c r jwt_getAuthenticatedHttpClient_def jwt_getHttpClient_def
        getAuthenticatedHttpClient_def getHttpClient_def nth_append)
qed

lemma applyMiddleware_logged:
  "logged (snd (applyMiddleware fns cs w)) =
     logged w @ (case fst (applyMiddleware fns cs w) of None \<Rightarrow> [] | Some x \<Rightarrow> [LogError x])"
proof -
  let ?fs = "case fns of None \<Rightarrow> [] | Some m \<Rightarrow> m"
  obtain r w1 where r: "apply_each 0 ?fs cs w = (r, w1)"
    by force
  with apply_each_frame [of 0 ?fs cs w] have "logged w1 = logged w"
    by simp
  with r show ?thesis
    by (cases r) (simp_all add: applyMiddleware_def logFrontendAuthError_def)
qed

lemma applyMiddleware_returns:
  assumes "\<forall>f\<in>set (case fns of None \<Rightarrow> [] | Some m \<Rightarrow> m). \<forall>c st. fst (f c st) = None"
  shows "fst (applyMiddleware fns cs w) = None \<and>
         applied (snd (applyMiddleware fns cs w)) =
           applied w @
           List.product [0 ..< length (case fns of None \<Rightarrow> [] | Some m \<Rightarrow> m)] (non_null cs)"
proof -
  let ?fs = "case fns of None \<Rightarrow> [] | Some m \<Rightarrow> m"
  obtain r w1 where r: "apply_each 0 ?fs cs w = (r, w1)"
    by force
  with apply_each_returns [OF assms, of 0 cs w]
  have "r = None" "applied w1 = applied w @ List.product [0 ..< length ?fs] (non_null cs)"
    by simp_all
  with r show ?thesis
    by (simp add: applyMiddleware_def)
qed

text \<open>
  C4. If cache initialization fails, then in whatever state the service is: the cached
  handles become the direct clients themselves, so that both getters return the direct
  client whatever \<^verbatim>\<open>useCache\<close> is; the failure is reported to the log exactly once,
  as one message, the only other entry that the chain can add being the error of a
  middleware function that throws; and the failure goes to the \<^verbatim>\<open>catch\<close> handler
  and no further: when no middleware function throws the chain ends without an error.
  The constructor has returned the service before any of this, and cannot throw.
\<close>

theorem configureCache_failure_falls_back:
  "case configureCache_settled options (Inl e) s w of (error, s', w') \<Rightarrow>
     authenticatedHttpClient s' = authenticatedHttpClient s \<and>
     httpClient s' = httpClient s \<and>
     cachedAuthenticatedHttpClient s' = Some (authenticatedHttpClient s) \<and>
     cachedHttpClient s' = Some (httpClient s) \<and>
     (\<forall>useCache.
        jwt_getAuthenticatedHttpClient useCache s' = Some (authenticatedHttpClient s) \<and>
        jwt_getHttpClient useCache s' = Some (httpClient s)) \<and>
     logged w' =
       logged w @
       LogMessage (''configureCache failed with error: '' @ message e) #
       (case error of None \<Rightarrow> [] | Some x \<Rightarrow> [LogError x]) \<and>
     ((\<forall>f\<in>set (case options_middleware options of None \<Rightarrow> [] | Some m \<Rightarrow> m).
         \<forall>c st. fst (f c st) = None) \<longrightarrow> error = None)"
proof -
  obtain s1 w1 where c: "configureCache_catch e s w = (s1, w1)"
    by force
  then have s1: "s1 = s\<lparr>cachedAuthenticatedHttpClient := Some (authenticatedHttpClient s),
        cachedHttpClient := Some (httpClient s)\<rparr>"
    and w1: "logged w1 =
      logged w @ [LogMessage (''configureCache failed with error: '' @ message e)]"
    by (auto simp: configureCache_catch_def logFrontendAuthError_def Let_def)
  let ?s2 = "s1\<lparr>middleware := options_middleware options\<rparr>"
  obtain error w' where a: "jwt_applyMiddleware (options_middleware options) ?s2 w1 = (error, w')"
    by force
  have settled: "configureCache_settled options (Inl e) s w = (error, ?s2, w')"
    by (simp add: configureCache_settled_def configureCache_finally_def c a)
  from a applyMiddleware_logged [of "options_middleware options" "jwt_getMiddlewareClients ?s2" w1]
  have l: "logged w' = logged w1 @ (case error of None \<Rightarrow> [] | Some x \<Rightarrow> [LogError x])"
    by (simp add: jwt_applyMiddleware_def)
  have n: "(\<forall>f\<in>set (case options_middleware options of None \<Rightarrow> [] | Some m \<Rightarrow> m).
         \<forall>c st. fst (f c st) = None) \<longrightarrow> error = None"
    using a applyMiddleware_returns [of "options_middleware options" "jwt_getMiddlewareClients ?s2" w1]
    by (auto simp: jwt_applyMiddleware_def)
  from l w1 n show ?thesis
    by (simp add: settled s1 jwt_getAuthenticatedHttpClient_def jwt_getHttpClient_def
        getAuthenticatedHttpClient_def getHttpClient_def)
qed


lemma count_list_map_Pair:
  "count_list (map (Pair a) ys) (x, y) = (if a = x then count_list ys y else 0)"
  by (induction ys) auto

lemma count_list_product:
  "count_list (List.product xs ys) (x, y) = count_list xs x * count_list ys y"
  by (induction xs) (auto simp: count_list_map_Pair)

lemma count_list_upt: "count_list [0 ..< n] i = (if i < n then 1 else 0)"
  by (induction n) auto

text \<open>
  C5, as amended. After cache initialization settles, whether it succeeded or failed
  and whatever was called on the service in between, if no middleware function throws,
  then every middleware function supplied at configuration has been called with the four
  client handles, in the order of the configuration and, for each function, in the order
  direct authenticated, direct unauthenticated, cached authenticated, cached
  unauthenticated; these are all the calls. After a success the four handles are four
  different objects, and each is handed each function exactly once. After a failure the
  cached handles are the direct clients themselves, and each direct client is handed
  each function exactly twice.
\<close>

theorem applyMiddleware_after_cache_settles:
  assumes "\<forall>f\<in>set (case options_middleware options of None \<Rightarrow> [] | Some m \<Rightarrow> m).
             \<forall>c st. fst (f c st) = None"
  shows "case jwt_run calls (jwt_constructor options w0) of (s, w) \<Rightarrow>
         case configureCache_settled options outcome s w of (error, s', w') \<Rightarrow>
           error = None \<and> middleware s' = options_middleware options \<and>
           (\<exists>ca ch new.
              cachedAuthenticatedHttpClient s' = Some ca \<and> cachedHttpClient s' = Some ch \<and>
              applied w' = applied w0 @ new \<and>
              new = List.product
                [0 ..< length (case options_middleware options of None \<Rightarrow> [] | Some m \<Rightarrow> m)]
                [authenticatedHttpClient s', httpClient s', ca, ch] \<and>
              (case outcome of
                 Inr a \<Rightarrow>
                   distinct [authenticatedHttpClient s', httpClient s', ca, ch] \<and>
                   (\<forall>i < length (case options_middleware options of None \<Rightarrow> [] | Some m \<Rightarrow> m).
                      \<forall>c \<in> {authenticatedHttpClient s', httpClient s', ca, ch}.
                        count_list new (i, c) = 1)
               | Inl e \<Rightarrow>
                   ca = authenticatedHttpClient s' \<and> ch = httpClient s' \<and>
                   (\<forall>i < length (case options_middleware options of None \<Rightarrow> [] | Some m \<Rightarrow> m).
                      \<forall>c \<in> {authenticatedHttpClient s', httpClient s'}.
                        count_list new (i, c) = 2)))"
proof -
  let ?fs = "case options_middleware options of None \<Rightarrow> [] | Some m \<Rightarrow> m"
  let ?A = "Derived (created w0) (Axios (length (instances w0)))"
  let ?H = "Axios (Suc (length (instances w0)))"
  obtain s0 w1 where c: "jwt_constructor options w0 = (s0, w1)"
    by force
  obtain s w where r: "jwt_run calls (s0, w1) = (s, w)"
    by force
  from c [unfolded jwt_constructor_eq] jwt_run_frame [OF r]
  have s: "authenticatedHttpClient s = ?A" "httpClient s = ?H"
    and w: "length (instances w) = Suc (Suc (length (instances w0)))"
      "created w = Suc (created w0)" "applied w = applied w0"
    by auto
  obtain s1 w2 where h: "(case outcome of
           Inr a \<Rightarrow>
             (let (cachedAxiosClient, w) = store_instance a w
              in configureCache_then cachedAxiosClient s w)
         | Inl e \<Rightarrow> configureCache_catch e s w) = (s1, w2)"
    by force
  define ca ch where "ca = (case outcome of Inr a \<Rightarrow> Derived (Suc (created w0)) (Axios (Suc (Suc (length (instances w0))))) | Inl e \<Rightarrow> ?A)"
    and "ch = (case outcome of Inr a \<Rightarrow> Axios (Suc (Suc (length (instances w0)))) | Inl e \<Rightarrow> ?H)"
  from h s w have s1: "authenticatedHttpClient s1 = ?A" "httpClient s1 = ?H"
    "cachedAuthenticatedHttpClient s1 = Some ca" "cachedHttpClient s1 = Some ch"
    and w2: "applied w2 = applied w0"
    by (auto simp: ca_def ch_def configureCache_then_def configureCache_catch_def
        store_instance_def addAuthenticationToHttpClient_def store_defs
        logFrontendAuthError_def Let_def split: sum.splits prod.splits)
  let ?s2 = "s1\<lparr>middleware := options_middleware options\<rparr>"
  obtain error w' where a: "jwt_applyMiddleware (options_middleware options) ?s2 w2 = (error, w')"
    by force
  have settled: "configureCache_settled options outcome s w = (error, ?s2, w')"
    using h a by (simp add: configureCache_settled_def configureCache_finally_def)
  from a applyMiddleware_returns [OF assms, of "jwt_getMiddlewareClients ?s2" w2] s1 w2
  have e: "error = None"
    and ap: "applied w' = applied w0 @ List.product [0 ..< length ?fs] [?A, ?H, ca, ch]"
    by (simp_all add: jwt_applyMiddleware_def jwt_getMiddlewareClients_def)
  have counts: "case outcome of
      Inr a \<Rightarrow> distinct [?A, ?H, ca, ch] \<and>
        (\<forall>i < length ?fs. \<forall>c \<in> {?A, ?H, ca, ch}.
           count_list (List.product [0 ..< length ?fs] [?A, ?H, ca, ch]) (i, c) = 1)
    | Inl e \<Rightarrow> ca = ?A \<and> ch = ?H \<and>
        (\<forall>i < length ?fs. \<forall>c \<in> {?A, ?H}.
           count_list (List.product [0 ..< length ?fs] [?A, ?H, ca, ch]) (i, c) = 2)"
    by (cases outcome) (auto simp: ca_def ch_def count_list_product count_list_upt)
  define P where "P = (\<lambda>(error :: js_error option) (s' :: jwt_auth_service) (w' :: world).
           error = None \<and> middleware s' = options_middleware options \<and>
           (\<exists>ca ch new.
              cachedAuthenticatedHttpClient s' = Some ca \<and> cachedHttpClient s' = Some ch \<and>
              applied w' = applied w0 @ new \<and>
              new = List.product
                [0 ..< length (case options_middleware options of None \<Rightarrow> [] | Some m \<Rightarrow> m)]
                [authenticatedHttpClient s', httpClient s', ca, ch] \<and>
              (case outcome of
                 Inr a \<Rightarrow>
                   distinct [authenticatedHttpClient s', httpClient s', ca, ch] \<and>
                   (\<forall>i < length (case options_middleware options of None \<Rightarrow> [] | Some m \<Rightarrow> m).
                      \<forall>c \<in> {authenticatedHttpClient s', httpClient s', ca, ch}.
                        count_list new (i, c) = 1)
               | Inl e \<Rightarrow>
                   ca = authenticatedHttpClient s' \<and> ch = httpClient s' \<and>
                   (\<forall>i < length (case options_middleware options of None \<Rightarrow> [] | Some m \<Rightarrow> m).
                      \<forall>c \<in> {authenticatedHttpClient s', httpClient s'}.
                        count_list new (i, c) = 2))))"
  from e ap counts s1 have "P error ?s2 w'"
    unfolding P_def by (cases outcome) auto
  moreover have "?thesis \<longleftrightarrow> P error ?s2 w'"
    unfolding P_def by (simp only: c r settled prod.case)
  ultimately show ?thesis
    by simp
qed


text \<open>
  The service of the samples, after a user was set and a fetch found no credential.
\<close>

theorem cached_clients_null_until_settled_witness:
  "truthy (JBool True) \<and> \<not> truthy JUndefined \<and>
   (case jwt_run
           [SetAuthenticatedUser (Some sample_user), FetchAuthenticatedUser no_token JUndefined]
           (jwt_constructor sample_jwt_options sample_world) of
      (s, w) \<Rightarrow>
        jwt_getAuthenticatedHttpClient (JBool True) s = None \<and>
        jwt_getHttpClient (JBool True) s = None \<and>
        jwt_getAuthenticatedHttpClient JUndefined s = Some (authenticatedHttpClient s) \<and>
        jwt_getHttpClient JUndefined s = Some (httpClient s))"
  using cached_clients_null_until_settled
    [where calls =
        "[SetAuthenticatedUser (Some sample_user), FetchAuthenticatedUser no_token JUndefined]"
      and options = sample_jwt_options and ?w0.0 = sample_world]
  by (auto split: prod.splits)

lemma tagging_jwt_eq:
  "tagging_jwt =
     \<lparr>config = sample_config,
      authenticatedHttpClient = Derived 0 (Axios 0),
      httpClient = Axios 1,
      authenticatedUser = None,
      cachedAuthenticatedHttpClient = None,
      cachedHttpClient = None,
      middleware = None\<rparr>"
  by (simp add: tagging_jwt_def tagging_options_def jwt_constructor_eq sample_world_def)

lemma tagging_jwt_world_eq:
  "tagging_jwt_world =
     \<lparr>referrer = [], navigations = [], logged = [], requests = [], console = [],
      instances =
        [\<lparr>withCredentials = True,
          request_interceptors = [CsrfTokenProviderInterceptor, JwtTokenProviderInterceptor],
          response_interceptors = [ProcessAxiosRequestErrorInterceptor]\<rparr>,
         \<lparr>withCredentials = False, request_interceptors = [], response_interceptors = []\<rparr>],
      created = 1, applied = [], csrf_token_calls = []\<rparr>"
  by (simp add: tagging_jwt_world_def tagging_options_def jwt_constructor_eq sample_world_def)

lemma tag_requests_returns: "fst (tag_requests c st) = None"
  by (simp add: tag_requests_def)

lemma cache_failed_eq:
  "cache_failed =
     (None,
      \<lparr>config = sample_config,
       authenticatedHttpClient = Derived 0 (Axios 0),
       httpClient = Axios 1,
       authenticatedUser = None,
       cachedAuthenticatedHttpClient = Some (Derived 0 (Axios 0)),
       cachedHttpClient = Some (Axios 1),
       middleware = Some [tag_requests]\<rparr>,
      \<lparr>referrer = [], navigations = [],
       logged =
         [LogMessage ''configureCache failed with error: No available storage method found.''],
       requests = [], console = [],
       instances =
         [\<lparr>withCredentials = True,
           request_interceptors =
             [CsrfTokenProviderInterceptor, JwtTokenProviderInterceptor,
              OtherInterceptor ''tag'', OtherInterceptor ''tag''],
           response_interceptors = [ProcessAxiosRequestErrorInterceptor]\<rparr>,
          \<lparr>withCredentials = False,
           request_interceptors = [OtherInterceptor ''tag'', OtherInterceptor ''tag''],
           response_interceptors = []\<rparr>],
       created = 1,
       applied =
         [(0, Derived 0 (Axios 0)), (0, Axios 1), (0, Derived 0 (Axios 0)), (0, Axios 1)],
       csrf_token_calls = []\<rparr>)"
  by (simp add: cache_failed_def tagging_jwt_eq tagging_jwt_world_eq tagging_options_def
      cache_error_def new_Error_def configureCache_settled_def configureCache_catch_def
      configureCache_finally_def jwt_applyMiddleware_def applyMiddleware_def
      jwt_getMiddlewareClients_def logFrontendAuthError_def tag_requests_def)

lemma cache_configured_eq:
  "cache_configured =
     (None,
      \<lparr>config = sample_config,
       authenticatedHttpClient = Derived 0 (Axios 0),
       httpClient = Axios 1,
       authenticatedUser = None,
       cachedAuthenticatedHttpClient = Some (Derived 1 (Axios 2)),
       cachedHttpClient = Some (Axios 2),
       middleware = Some [tag_requests]\<rparr>,
      \<lparr>referrer = [], navigations = [], logged = [], requests = [], console = [],
       instances =
         [\<lparr>withCredentials = True,
           request_interceptors =
             [CsrfTokenProviderInterceptor, JwtTokenProviderInterceptor,
              OtherInterceptor ''tag''],
           response_interceptors = [ProcessAxiosRequestErrorInterceptor]\<rparr>,
          \<lparr>withCredentials = False,
           request_interceptors = [OtherInterceptor ''tag''],
           response_interceptors = []\<rparr>,
          \<lparr>withCredentials = True,
           request_interceptors =
             [CsrfTokenProviderInterceptor, JwtTokenProviderInterceptor,
              OtherInterceptor ''tag'', OtherInterceptor ''tag''],
           response_interceptors = [ProcessAxiosRequestErrorInterceptor]\<rparr>],
       created = 2,
       applied =
         [(0, Derived 0 (Axios 0)), (0, Axios 1), (0, Derived 1 (Axios 2)), (0, Axios 2)],
       csrf_token_calls = []\<rparr>)"
  by (simp add: cache_configured_def tagging_jwt_eq tagging_jwt_world_eq tagging_options_def
      cached_instance_def configureCache_settled_def configureCache_then_def store_instance_def
      addAuthenticationToHttpClient_def store_defs
      configureCache_finally_def jwt_applyMiddleware_def applyMiddleware_def
      jwt_getMiddlewareClients_def tag_requests_def)

text \<open>
  The service with the tagging middleware, after the cache promise rejected.
\<close>

theorem configureCache_failure_falls_back_witness:
  "options_middleware tagging_options = Some [tag_requests] \<and>
   (\<forall>c st. fst (tag_requests c st) = None) \<and>
   (case cache_failed of (error, s', w') \<Rightarrow>
      error = None \<and>
      jwt_getAuthenticatedHttpClient (JBool True) s' = Some (authenticatedHttpClient tagging_jwt) \<and>
      jwt_getAuthenticatedHttpClient (JBool False) s' = Some (authenticatedHttpClient tagging_jwt) \<and>
      jwt_getHttpClient (JBool True) s' = Some (httpClient tagging_jwt) \<and>
      jwt_getHttpClient (JBool False) s' = Some (httpClient tagging_jwt) \<and>
      logged w' =
        [LogMessage ''configureCache failed with error: No available storage method found.''])"
proof -
  have returns: "\<forall>f\<in>set (case options_middleware tagging_options of None \<Rightarrow> [] | Some m \<Rightarrow> m).
      \<forall>c st. fst (f c st) = None"
    by (simp add: tagging_options_def tag_requests_returns)
  have "logged tagging_jwt_world = []"
    and "message cache_error = ''No available storage method found.''"
    by (simp_all add: tagging_jwt_world_eq cache_error_def new_Error_def)
  with returns
    configureCache_failure_falls_back
      [where options = tagging_options and e = cache_error and s = tagging_jwt
         and w = tagging_jwt_world]
  have "case cache_failed of (error, s', w') \<Rightarrow>
      error = None \<and>
      jwt_getAuthenticatedHttpClient (JBool True) s' = Some (authenticatedHttpClient tagging_jwt) \<and>
      jwt_getAuthenticatedHttpClient (JBool False) s' = Some (authenticatedHttpClient tagging_jwt) \<and>
      jwt_getHttpClient (JBool True) s' = Some (httpClient tagging_jwt) \<and>
      jwt_getHttpClient (JBool False) s' = Some (httpClient tagging_jwt) \<and>
      logged w' =
        [LogMessage ''configureCache failed with error: No available storage method found.'']"
    by (auto simp: cache_failed_def split: prod.splits)
  then show ?thesis
    by (simp add: tagging_options_def tag_requests_returns)
qed

text \<open>
  The service with the tagging middleware, after the cache promise resolved and after
  it rejected.
\<close>

theorem applyMiddleware_after_cache_settles_witness:
  "options_middleware tagging_options = Some [tag_requests] \<and>
   (\<forall>c st. fst (tag_requests c st) = None) \<and>
   (case cache_configured of (error, s', w') \<Rightarrow>
      error = None \<and> middleware s' = Some [tag_requests] \<and>
      (\<exists>ca ch.
         cachedAuthenticatedHttpClient s' = Some ca \<and> cachedHttpClient s' = Some ch \<and>
         distinct [authenticatedHttpClient s', httpClient s', ca, ch] \<and>
         applied w' = [(0, authenticatedHttpClient s'), (0, httpClient s'), (0, ca), (0, ch)] \<and>
         count_list (applied w') (0, authenticatedHttpClient s') = 1 \<and>
         count_list (applied w') (0, ca) = 1)) \<and>
   (case cache_failed of (error, s', w') \<Rightarrow>
      error = None \<and> middleware s' = Some [tag_requests] \<and>
      cachedAuthenticatedHttpClient s' = Some (authenticatedHttpClient s') \<and>
      cachedHttpClient s' = Some (httpClient s') \<and>
      applied w' =
        [(0, authenticatedHttpClient s'), (0, httpClient s'),
         (0, authenticatedHttpClient s'), (0, httpClient s')] \<and>
      count_list (applied w') (0, authenticatedHttpClient s') = 2)"
proof -
  have returns: "\<forall>f\<in>set (case options_middleware tagging_options of None \<Rightarrow> [] | Some m \<Rightarrow> m).
      \<forall>c st. fst (f c st) = None"
    by (simp add: tagging_options_def tag_requests_returns)
  have start: "jwt_run [] (jwt_constructor tagging_options sample_world) =
      (tagging_jwt, tagging_jwt_world)"
    by (simp add: jwt_run_def tagging_jwt_def tagging_jwt_world_def)
  have fns: "options_middleware tagging_options = Some [tag_requests]"
    and none: "applied sample_world = []"
    by (simp_all add: tagging_options_def sample_world_def)
  from applyMiddleware_after_cache_settles
    [OF returns, where calls = "[]" and ?w0.0 = sample_world and outcome = "Inr cached_instance"] start fns none
  have configured: "case cache_configured of (error, s', w') \<Rightarrow>
      error = None \<and> middleware s' = Some [tag_requests] \<and>
      (\<exists>ca ch.
         cachedAuthenticatedHttpClient s' = Some ca \<and> cachedHttpClient s' = Some ch \<and>
         distinct [authenticatedHttpClient s', httpClient s', ca, ch] \<and>
         applied w' = [(0, authenticatedHttpClient s'), (0, httpClient s'), (0, ca), (0, ch)] \<and>
         count_list (applied w') (0, authenticatedHttpClient s') = 1 \<and>
         count_list (applied w') (0, ca) = 1)"
    by (auto simp: cache_configured_def split: prod.splits)
  from applyMiddleware_after_cache_settles
    [OF returns, where calls = "[]" and ?w0.0 = sample_world and outcome = "Inl cache_error"] start fns none
  have failed: "case cache_failed of (error, s', w') \<Rightarrow>
      error = None \<and> middleware s' = Some [tag_requests] \<and>
      cachedAuthenticatedHttpClient s' = Some (authenticatedHttpClient s') \<and>
      cachedHttpClient s' = Some (httpClient s') \<and>
      applied w' =
        [(0, authenticatedHttpClient s'), (0, httpClient s'),
         (0, authenticatedHttpClient s'), (0, httpClient s')] \<and>
      count_list (applied w') (0, authenticatedHttpClient s') = 2"
    by (auto simp: cache_failed_def split: prod.splits)
  from fns configured failed show ?thesis
    by (simp add: tag_requests_returns)
qed

lemma throwing_configured_eq:
  "throwing_configured =
     (Some (new_Error ''middleware failed''),
      \<lparr>config = sample_config,
       authenticatedHttpClient = Derived 0 (Axios 0),
       httpClient = Axios 1,
       authenticatedUser = None,
       cachedAuthenticatedHttpClient = Some (Derived 1 (Axios 2)),
       cachedHttpClient = Some (Axios 2),
       middleware = Some [throwing_middleware]\<rparr>,
      \<lparr>referrer = [], navigations = [],
       logged = [LogError (new_Error ''middleware failed'')],
       requests = [], console = [],
       instances =
         [\<lparr>withCredentials = True,
           request_interceptors = [CsrfTokenProviderInterceptor, JwtTokenProviderInterceptor],
           response_interceptors = [ProcessAxiosRequestErrorInterceptor]\<rparr>,
          \<lparr>withCredentials = False, request_interceptors = [], response_interceptors = []\<rparr>,
          \<lparr>withCredentials = True,
           request_interceptors = [CsrfTokenProviderInterceptor, JwtTokenProviderInterceptor],
           response_interceptors = [ProcessAxiosRequestErrorInterceptor]\<rparr>],
       created = 2,
       applied = [(0, Derived 0 (Axios 0))],
       csrf_token_calls = []\<rparr>)"
  by (simp add: throwing_configured_def throwing_options_def jwt_constructor_eq sample_world_def
      cached_instance_def configureCache_settled_def configureCache_then_def store_instance_def
      addAuthenticationToHttpClient_def store_defs
      configureCache_finally_def jwt_applyMiddleware_def applyMiddleware_def
      jwt_getMiddlewareClients_def throwing_middleware_def logFrontendAuthError_def)

text \<open>
  After a failed initialization a function is not applied exactly once to a handle. The
  authenticated client that both getters return has been handed the tagging middleware
  twice, and carries its interceptor twice. And a middleware function that throws ends
  the loop: after a successful initialization the first handle has been handed it, and
  the unauthenticated client that the getter returns has not.
\<close>

theorem applyMiddleware_once_per_handle_counterexample:
  "fst throwing_configured = Some (new_Error ''middleware failed'') \<and>
   applied (snd (snd throwing_configured)) = [(0, Derived 0 (Axios 0))] \<and>
   jwt_getHttpClient (JBool False) (fst (snd throwing_configured)) = Some (Axios 1) \<and>
   count_list (applied (snd (snd throwing_configured))) (0, Axios 1) = 0 \<and>
   fst cache_failed = None \<and>
   jwt_getAuthenticatedHttpClient (JBool True) (fst (snd cache_failed)) =
     Some (Derived 0 (Axios 0)) \<and>
   jwt_getAuthenticatedHttpClient (JBool False) (fst (snd cache_failed)) =
     Some (Derived 0 (Axios 0)) \<and>
   applied (snd (snd cache_failed)) =
     [(0, Derived 0 (Axios 0)), (0, Axios 1), (0, Derived 0 (Axios 0)), (0, Axios 1)] \<and>
   count_list (applied (snd (snd cache_failed))) (0, Derived 0 (Axios 0)) = 2 \<and>
   request_interceptors (instances (snd (snd cache_failed)) ! instance_of (Derived 0 (Axios 0))) =
     [CsrfTokenProviderInterceptor, JwtTokenProviderInterceptor,
      OtherInterceptor ''tag'', OtherInterceptor ''tag'']"
  by (simp add: cache_failed_eq throwing_configured_eq jwt_getAuthenticatedHttpClient_def
      getAuthenticatedHttpClient_def jwt_getHttpClient_def getHttpClient_def)


section \<open>The anti-forgery token of a request\<close>

lemma csrf_shouldSkip_iff:
  "truthy (csrf_shouldSkip c) \<longleftrightarrow>
     truthy (isCsrfExempt c) \<or> method c \<notin> set CSRF_PROTECTED_METHODS"
  by (simp add: csrf_shouldSkip_def js_or_def)

text \<open>
  C6. For every request that a caller sends through an authenticated client, of which
  axios hands the configuration to the interceptors with the method in lower case: the
  anti-forgery attachment step is skipped, the request passing unchanged and no token
  being asked for, when the request is flagged \<^verbatim>\<open>isCsrfExempt\<close> or its method is none
  of POST, PUT, PATCH and DELETE, a POST flagged as exempt included. Every other request
  asks the token service exactly once, and goes on with the token set as the request
  header and nothing else changed, or fails with the failure of the token service. The
  interceptor is among those that the constructor registers on the authenticated client.
\<close>

theorem attachCsrfTokenInterceptor_skips:
  "(truthy (isCsrfExempt c) \<or> toLowerCase (method c) \<notin> {''post'', ''put'', ''patch'', ''delete''} \<longrightarrow>
      attachCsrfTokenInterceptor getCsrfToken headerName cfg (axios_request_config c) w =
        (Inr (axios_request_config c), w)) \<and>
   (\<not> (truthy (isCsrfExempt c) \<or>
        toLowerCase (method c) \<notin> {''post'', ''put'', ''patch'', ''delete''}) \<longrightarrow>
      csrf_token_calls
        (snd (attachCsrfTokenInterceptor getCsrfToken headerName cfg (axios_request_config c) w)) =
        csrf_token_calls w @ [(url c, CSRF_TOKEN_API_PATH cfg)] \<and>
      (\<forall>csrfToken. getCsrfToken (url c) (CSRF_TOKEN_API_PATH cfg) = Inr csrfToken \<longrightarrow>
         (\<exists>sent.
            fst (attachCsrfTokenInterceptor getCsrfToken headerName cfg
                   (axios_request_config c) w) = Inr sent \<and>
            map_of (headers sent) headerName = Some csrfToken \<and>
            (\<forall>h. h \<noteq> headerName \<longrightarrow> map_of (headers sent) h = map_of (headers c) h) \<and>
            url sent = url c \<and> method sent = toLowerCase (method c))) \<and>
      (\<forall>e. getCsrfToken (url c) (CSRF_TOKEN_API_PATH cfg) = Inl e \<longrightarrow>
         fst (attachCsrfTokenInterceptor getCsrfToken headerName cfg
                (axios_request_config c) w) = Inl e)) \<and>
   (case jwt_constructor options w0 of (s, w1) \<Rightarrow>
      CsrfTokenProviderInterceptor \<in>
        set (request_interceptors (instances w1 ! instance_of (authenticatedHttpClient s))))"
proof (intro conjI impI allI)
  let ?run = "attachCsrfTokenInterceptor getCsrfToken headerName cfg (axios_request_config c) w"
  let ?w = "w\<lparr>csrf_token_calls := csrf_token_calls w @ [(url c, CSRF_TOKEN_API_PATH cfg)]\<rparr>"
  have skip: "truthy (csrf_shouldSkip (axios_request_config c)) \<longleftrightarrow>
      truthy (isCsrfExempt c) \<or>
      toLowerCase (method c) \<notin> {''post'', ''put'', ''patch'', ''delete''}"
    by (simp add: csrf_shouldSkip_iff axios_request_config_def CSRF_PROTECTED_METHODS_def)
  have same: "url (axios_request_config c) = url c"
    "headers (axios_request_config c) = headers c"
    by (simp_all add: axios_request_config_def)
  have run: "?run =
      (if truthy (csrf_shouldSkip (axios_request_config c)) then (Inr (axios_request_config c), w)
       else case getCsrfToken (url c) (CSRF_TOKEN_API_PATH cfg) of
              Inl e \<Rightarrow> (Inl e, ?w)
            | Inr csrfToken \<Rightarrow>
                (Inr ((axios_request_config c)\<lparr>headers :=
                   AList.update headerName csrfToken (headers c)\<rparr>), ?w))"
    by (simp add: attachCsrfTokenInterceptor_def csrfTokenProviderInterceptor_def Let_def same
        split: sum.splits)
  {
    assume "truthy (isCsrfExempt c) \<or>
      toLowerCase (method c) \<notin> {''post'', ''put'', ''patch'', ''delete''}"
    with skip run show "?run = (Inr (axios_request_config c), w)"
      by simp
  }
  {
    assume "\<not> (truthy (isCsrfExempt c) \<or>
      toLowerCase (method c) \<notin> {''post'', ''put'', ''patch'', ''delete''})"
    with skip have go: "\<not> truthy (csrf_shouldSkip (axios_request_config c))"
      by simp
    from go run show "csrf_token_calls (snd ?run) =
        csrf_token_calls w @ [(url c, CSRF_TOKEN_API_PATH cfg)]"
      by (simp split: sum.splits)
    {
      fix csrfToken
      assume "getCsrfToken (url c) (CSRF_TOKEN_API_PATH cfg) = Inr csrfToken"
      with go run have "fst ?run =
          Inr ((axios_request_config c)\<lparr>headers :=
            AList.update headerName csrfToken (headers c)\<rparr>)"
        by simp
      then show "\<exists>sent. fst ?run = Inr sent \<and>
            map_of (headers sent) headerName = Some csrfToken \<and>
            (\<forall>h. h \<noteq> headerName \<longrightarrow> map_of (headers sent) h = map_of (headers c) h) \<and>
            url sent = url c \<and> method sent = toLowerCase (method c)"
        by (simp add: update_conv' axios_request_config_def)
    }
    {
      fix e
      assume "getCsrfToken (url c) (CSRF_TOKEN_API_PATH cfg) = Inl e"
      with go run show "fst ?run = Inl e"
        by simp
    }
  }
  show "case jwt_constructor options w0 of (s, w1) \<Rightarrow>
      CsrfTokenProviderInterceptor \<in>
        set (request_interceptors (instances w1 ! instance_of (authenticatedHttpClient s)))"
    by (simp add: jwt_constructor_eq nth_append)
qed

section \<open>The single refresh\<close>

lemma provider_calls_join:
  assumes "cached p = None" and "in_flight p = Some waiting"
  shows "provider_run (map Call callers) p = p\<lparr>in_flight := Some (waiting @ callers)\<rparr>"
  using assms
proof (induction callers arbitrary: p waiting)
  case Nil
  then show ?case by (simp add: provider_run_def)
next
  case (Cons i callers)
  let ?p = "p\<lparr>in_flight := Some (waiting @ [i])\<rparr>"
  from Cons.prems have "provider_step (Call i) p = ?p"
    by simp
  then have "provider_run (map Call (i # callers)) p = provider_run (map Call callers) ?p"
    by (simp add: provider_run_def)
  also from Cons.prems have "\<dots> = ?p\<lparr>in_flight := Some ((waiting @ [i]) @ callers)\<rparr>"
    by (intro Cons.IH) simp_all
  finally show ?case
    by simp
qed

text \<open>
  C7. For all N concurrent calls that need a value when none is cached and no refresh is
  pending (N callers ask before the refresh settles): exactly one refresh call is made
  to the backend, by the first of them; none of them has a result before the refresh
  settles; when it settles, all N receive the result it settled with, the same value or
  the same failure, in the order of their calls; and the in-flight marker is cleared.
\<close>

theorem concurrent_calls_share_one_refresh:
  assumes "callers \<noteq> []" and "cached p = None" and "in_flight p = None"
  shows "refreshes (provider_run (map Call callers) p) = Suc (refreshes p) \<and>
         in_flight (provider_run (map Call callers) p) = Some callers \<and>
         received (provider_run (map Call callers) p) = received p \<and>
         refreshes (provider_run (map Call callers @ [Settle r]) p) = Suc (refreshes p) \<and>
         received (provider_run (map Call callers @ [Settle r]) p) =
           received p @ map (\<lambda>i. (i, r)) callers \<and>
         in_flight (provider_run (map Call callers @ [Settle r]) p) = None"
proof -
  from assms(1) obtain i rest where callers: "callers = i # rest"
    by (cases callers) auto
  let ?p = "p\<lparr>in_flight := Some [i], refreshes := Suc (refreshes p)\<rparr>"
  from assms(2,3) have first: "provider_step (Call i) p = ?p"
    by simp
  from assms(2) have "provider_run (map Call rest) ?p = ?p\<lparr>in_flight := Some ([i] @ rest)\<rparr>"
    by (intro provider_calls_join) simp_all
  with first have pending: "provider_run (map Call callers) p =
      p\<lparr>in_flight := Some callers, refreshes := Suc (refreshes p)\<rparr>"
    by (simp add: callers provider_run_def)
  have "provider_run (map Call callers @ [Settle r]) p =
      provider_step (Settle r) (provider_run (map Call callers) p)"
    by (simp add: provider_run_def)
  with pending show ?thesis
    by simp
qed


text \<open>
  A POST flagged as exempt passes unchanged; a POST that is not flagged asks for the
  token and carries it, or fails with the token service.
\<close>

theorem attachCsrfTokenInterceptor_skips_witness:
  "(truthy (isCsrfExempt exempt_post) \<or>
    toLowerCase (method exempt_post) \<notin> {''post'', ''put'', ''patch'', ''delete''}) \<and>
   attachCsrfTokenInterceptor sample_csrf_token ''X-CSRFToken'' sample_config
       (axios_request_config exempt_post) sample_jwt_world =
     (Inr (axios_request_config exempt_post), sample_jwt_world) \<and>
   \<not> (truthy (isCsrfExempt sample_post) \<or>
      toLowerCase (method sample_post) \<notin> {''post'', ''put'', ''patch'', ''delete''}) \<and>
   csrf_token_calls
     (snd (attachCsrfTokenInterceptor sample_csrf_token ''X-CSRFToken'' sample_config
        (axios_request_config sample_post) sample_jwt_world)) =
     [(''http://localhost:18000/api/enrollment'', ''/csrf/api/v1/token'')] \<and>
   (\<exists>sent.
      fst (attachCsrfTokenInterceptor sample_csrf_token ''X-CSRFToken'' sample_config
        (axios_request_config sample_post) sample_jwt_world) = Inr sent \<and>
      map_of (headers sent) ''X-CSRFToken'' = Some ''token-1'' \<and>
      map_of (headers sent) ''Accept'' = Some ''application/json'' \<and>
      method sent = ''post'') \<and>
   fst (attachCsrfTokenInterceptor failing_csrf_token ''X-CSRFToken'' sample_config
     (axios_request_config sample_post) sample_jwt_world) = Inl (new_Error ''Network Error'')"
proof -
  have exempt: "truthy (isCsrfExempt exempt_post) \<or>
      toLowerCase (method exempt_post) \<notin> {''post'', ''put'', ''patch'', ''delete''}"
    by (simp add: exempt_post_def)
  have lower: "toLowerCase (method sample_post) = ''post''"
    by (simp add: sample_post_def toLowerCase_def to_lower_def)
  have protected: "\<not> (truthy (isCsrfExempt sample_post) \<or>
      toLowerCase (method sample_post) \<notin> {''post'', ''put'', ''patch'', ''delete''})"
    by (simp add: lower) (simp add: sample_post_def)
  have request: "url sample_post = ''http://localhost:18000/api/enrollment''"
    "map_of (headers sample_post) ''Accept'' = Some ''application/json''"
    "CSRF_TOKEN_API_PATH sample_config = ''/csrf/api/v1/token''"
    "csrf_token_calls sample_jwt_world = []"
    by (simp_all add: sample_post_def sample_config_def sample_jwt_world_eq)
  have token: "sample_csrf_token (url sample_post) (CSRF_TOKEN_API_PATH sample_config) =
      Inr ''token-1''"
    and failure: "failing_csrf_token (url sample_post) (CSRF_TOKEN_API_PATH sample_config) =
      Inl (new_Error ''Network Error'')"
    by (simp_all add: sample_csrf_token_def failing_csrf_token_def)
  note skips = attachCsrfTokenInterceptor_skips
    [where c = exempt_post and getCsrfToken = sample_csrf_token and headerName = "''X-CSRFToken''"
       and cfg = sample_config and w = sample_jwt_world]
  note attaches = attachCsrfTokenInterceptor_skips
    [where c = sample_post and getCsrfToken = sample_csrf_token and headerName = "''X-CSRFToken''"
       and cfg = sample_config and w = sample_jwt_world]
  note fails = attachCsrfTokenInterceptor_skips
    [where c = sample_post and getCsrfToken = failing_csrf_token and headerName = "''X-CSRFToken''"
       and cfg = sample_config and w = sample_jwt_world]
  from skips exempt have a: "attachCsrfTokenInterceptor sample_csrf_token ''X-CSRFToken''
       sample_config (axios_request_config exempt_post) sample_jwt_world =
     (Inr (axios_request_config exempt_post), sample_jwt_world)"
    by blast
  from attaches protected request have b: "csrf_token_calls
     (snd (attachCsrfTokenInterceptor sample_csrf_token ''X-CSRFToken'' sample_config
        (axios_request_config sample_post) sample_jwt_world)) =
     [(''http://localhost:18000/api/enrollment'', ''/csrf/api/v1/token'')]"
    by simp
  from attaches protected token obtain sent where
    "fst (attachCsrfTokenInterceptor sample_csrf_token ''X-CSRFToken'' sample_config
        (axios_request_config sample_post) sample_jwt_world) = Inr sent"
    "map_of (headers sent) ''X-CSRFToken'' = Some ''token-1''"
    "\<forall>h. h \<noteq> ''X-CSRFToken'' \<longrightarrow> map_of (headers sent) h = map_of (headers sample_post) h"
    "method sent = toLowerCase (method sample_post)"
    by blast
  with request lower have c: "\<exists>sent.
      fst (attachCsrfTokenInterceptor sample_csrf_token ''X-CSRFToken'' sample_config
        (axios_request_config sample_post) sample_jwt_world) = Inr sent \<and>
      map_of (headers sent) ''X-CSRFToken'' = Some ''token-1'' \<and>
      map_of (headers sent) ''Accept'' = Some ''application/json'' \<and>
      method sent = ''post''"
    by simp
  from fails protected failure have d: "fst (attachCsrfTokenInterceptor failing_csrf_token
     ''X-CSRFToken'' sample_config (axios_request_config sample_post) sample_jwt_world) =
     Inl (new_Error ''Network Error'')"
    by blast
  from exempt a protected b c d show ?thesis
    by blast
qed

text \<open>
  Three callers and a refresh that resolves, and one that fails.
\<close>

theorem concurrent_calls_share_one_refresh_witness:
  "[1, 2, 3] \<noteq> ([] :: nat list) \<and>
   cached (new_provider :: string provider) = None \<and>
   in_flight (new_provider :: string provider) = None \<and>
   refreshes (provider_run (map Call [1, 2, 3] @ [Settle (Inr ''jwt'')])
     (new_provider :: string provider)) = 1 \<and>
   received (provider_run (map Call [1, 2, 3] @ [Settle (Inr ''jwt'')])
     (new_provider :: string provider)) = [(1, Inr ''jwt''), (2, Inr ''jwt''), (3, Inr ''jwt'')] \<and>
   in_flight (provider_run (map Call [1, 2, 3] @ [Settle (Inr ''jwt'')])
     (new_provider :: string provider)) = None \<and>
   received (provider_run (map Call [1, 2, 3] @ [Settle (Inl (new_Error ''Network Error''))])
     (new_provider :: string provider)) =
     [(1, Inl (new_Error ''Network Error'')), (2, Inl (new_Error ''Network Error'')),
      (3, Inl (new_Error ''Network Error''))]"
proof -
  have start: "[1, 2, 3] \<noteq> ([] :: nat list)"
    "cached (new_provider :: string provider) = None"
    "in_flight (new_provider :: string provider) = None"
    by (simp_all add: new_provider_def)
  have none: "refreshes (new_provider :: string provider) = 0"
    "received (new_provider :: string provider) = []"
    by (simp_all add: new_provider_def)
  from concurrent_calls_share_one_refresh [OF start, of "Inr ''jwt''"]
    concurrent_calls_share_one_refresh [OF start, of "Inl (new_Error ''Network Error'')"]
    start none
  show ?thesis
    by simp
qed


end
